theory Spec2Isabelle
  imports Complex_Main "HOL-Library.AList" "HOL-Library.Sublist"
begin

section \<open>powerhour\_generator.py: the data the script works on\<close>

text \<open>
  The script is one Python file. Everything it does beyond plain computation goes
  through the operating system: \<^verbatim>\<open>shutil.which\<close>, \<^verbatim>\<open>os.path\<close>, \<^verbatim>\<open>glob\<close>,
  \<^verbatim>\<open>subprocess\<close> (ffprobe, ffmpeg), \<^verbatim>\<open>random\<close> and the temporary directory. The
  model makes these explicit: a record \<open>world\<close> holds what the surroundings answer
  (it is only read), a record \<open>state\<close> holds what the run has changed so far (the
  files present, the engine commands run through \<^verbatim>\<open>run_command\<close>, the messages
  printed, the text the script itself wrote into files, and how many random draws were
  consumed). A Python exception is a value \<open>Inl e\<close>; the state reached when it was
  raised is kept beside it, because the temporary directory is cleaned up afterwards.

  Left out: errors of the operating system while a file is opened or removed, a tool
  that disappears after \<^verbatim>\<open>shutil.which\<close> has found it, and output of a tool that
  is not valid text for \<^verbatim>\<open>text=True\<close>.
\<close>

type_synonym path = string

datatype py_error = ValueError | KeyError string | OverflowError

text \<open>
  A Python float. The measured duration is only ever compared with 80 and truncated by
  \<^verbatim>\<open>int()\<close>; both are exact on the value of the double, so a finite float is the real
  number it denotes. \<^verbatim>\<open>float()\<close> also accepts the texts inf and nan.
\<close>

datatype pyfloat = Fin real | PosInf | NegInf | NaN

text \<open>Truthiness of a float (only \<^verbatim>\<open>0.0\<close> is false) and \<^verbatim>\<open>duration >= 80\<close>.\<close>

fun float_truthy :: "pyfloat \<Rightarrow> bool" where
  "float_truthy (Fin r) = (r \<noteq> 0)"
| "float_truthy PosInf = True"
| "float_truthy NegInf = True"
| "float_truthy NaN = True"

fun float_ge :: "pyfloat \<Rightarrow> real \<Rightarrow> bool" where
  "float_ge (Fin r) b = (b \<le> r)"
| "float_ge PosInf b = True"
| "float_ge NegInf b = False"
| "float_ge NaN b = False"

text \<open>\<^verbatim>\<open>int(x)\<close> on a float: truncation towards zero; it raises on inf and nan.\<close>

fun py_int :: "pyfloat \<Rightarrow> py_error + int" where
  "py_int (Fin r) = Inr (if 0 \<le> r then \<lfloor>r\<rfloor> else \<lceil>r\<rceil>)"
| "py_int PosInf = Inl OverflowError"
| "py_int NegInf = Inl OverflowError"
| "py_int NaN = Inl ValueError"

subsection \<open>Strings and paths\<close>

text \<open>The characters \<^verbatim>\<open>str.strip()\<close> removes. A \<open>char\<close> stands for a code point below
  256, so the white space of Python is the ASCII one together with U+0085 and U+00A0;
  text with code points from 256 on is outside the model.\<close>

definition is_space :: "char \<Rightarrow> bool" where
  "is_space c = (c \<in> set [CHR 0x09, CHR 0x0A, CHR 0x0B, CHR 0x0C, CHR 0x0D,
                             CHR 0x1C, CHR 0x1D, CHR 0x1E, CHR 0x1F, CHR 0x20,
                             CHR 0x85, CHR 0xA0])"

definition strip :: "string \<Rightarrow> string" where
  "strip s = rev (dropWhile is_space (rev (dropWhile is_space s)))"

text \<open>\<^verbatim>\<open>s.split('\n')\<close>: the pieces between line feeds, at least one piece.\<close>

fun split_lines :: "string \<Rightarrow> string list" where
  "split_lines [] = [[]]"
| "split_lines (c # cs) =
     (if c = CHR 0x0A then [] # split_lines cs
      else (case split_lines cs of [] \<Rightarrow> [[c]] | l # ls \<Rightarrow> (c # l) # ls))"

text \<open>\<^verbatim>\<open>s.split(':', 1)\<close>: one piece without a colon, else the text before the first colon
  and the text after it.\<close>

definition split_colon1 :: "string \<Rightarrow> string list" where
  "split_colon1 s =
     (if CHR '':'' \<in> set s
      then [takeWhile (\<lambda>c. c \<noteq> CHR '':'') s, tl (dropWhile (\<lambda>c. c \<noteq> CHR '':'') s)]
      else [s])"

text \<open>\<^verbatim>\<open>os.path.join(a, b)\<close> of posixpath, for two components.\<close>

definition join :: "path \<Rightarrow> path \<Rightarrow> path" where
  "join a b =
     (if b \<noteq> [] \<and> hd b = CHR ''/'' then b
      else if a = [] \<or> last a = CHR ''/'' then a @ b
      else a @ ''/'' @ b)"

text \<open>The paths \<^verbatim>\<open>shutil.rmtree(d)\<close> removes: \<open>d\<close> and whatever lies below it.\<close>

definition inside :: "path \<Rightarrow> path \<Rightarrow> bool" where
  "inside d p = (p = d \<or> prefix (join d []) p)"

text \<open>The format \<^verbatim>\<open>{i:04d}\<close>: decimal digits, zero-padded to four.\<close>

definition digit_char :: "nat \<Rightarrow> char" where
  "digit_char n = char_of (48 + n)"

fun digits :: "nat \<Rightarrow> string" where
  "digits n = (if n < 10 then [digit_char n] else digits (n div 10) @ [digit_char (n mod 10)])"

declare digits.simps [simp del]

definition fmt04d :: "nat \<Rightarrow> string" where
  "fmt04d n = replicate (4 - length (digits n)) (CHR ''0'') @ digits n"

definition loudness_log_name :: "nat \<Rightarrow> string" where
  "loudness_log_name i = ''loudness_'' @ fmt04d i @ ''.log''"

definition temp_clip_name :: "nat \<Rightarrow> string" where
  "temp_clip_name i = ''temp_clip_'' @ fmt04d i @ ''.mp4''"

definition video_log_name :: "nat \<Rightarrow> string" where
  "video_log_name i = ''video_'' @ fmt04d i @ ''.log''"

subsection \<open>The surroundings and the state of a run\<close>

text \<open>
  What \<^verbatim>\<open>subprocess.check_output\<close> gives for ffprobe, already passed through
  \<^verbatim>\<open>float(output.strip())\<close>: a non-zero exit (CalledProcessError), an output that
  \<^verbatim>\<open>float\<close> accepts, or an output on which \<^verbatim>\<open>float\<close> raises ValueError (ffprobe
  prints N/A for a container without a duration, and exits with 0).
\<close>

datatype probe_out = ProbeExit | ProbeFloat pyfloat | ProbeText string

text \<open>The loudness pass of ffmpeg: a non-zero exit with the captured output, or the
  captured text (stdout and stderr together).\<close>

datatype loud_out = LoudExit string | LoudText string

text \<open>
  An engine command. The re-encode command of \<^verbatim>\<open>reencode_videos\<close> is determined by
  its input, \<^verbatim>\<open>-ss\<close>, \<^verbatim>\<open>-t\<close>, the three numbers of the fade filters, the audio
  filter text and the output path (all other arguments are constants); the concat
  command by the manifest path and the output file. The decimal rendering of the
  numbers is not modelled.
\<close>

datatype command =
    Reencode (c_input: path) (c_ss: real) (c_t: real)
             (c_fade_in_start: real) (c_fade_out_start: real) (c_fade_duration: real)
             (c_af: string) (c_output: path)
  | Concat (c_list: path) (c_output: path)

datatype message =
    MissingTools | MissingInputs | NoVideoFiles
  | Analyzing | FinishedAnalyzing
  | ErrorDuration path | ErrorLoudness path path
  | FailedCommonClip path | FailedVideo path
  | ProcessingComplete nat | FailedConcat path

record world =
  which :: "string \<Rightarrow> bool"
  isdir :: "path \<Rightarrow> bool"
  path_exists :: "path \<Rightarrow> bool"
  glob :: "path \<Rightarrow> path list"
  mkdtemp :: path
  ffprobe :: "path \<Rightarrow> probe_out"
  loudnorm :: "path \<Rightarrow> loud_out"
  engine :: "command \<Rightarrow> bool"
  rng :: "nat \<Rightarrow> nat"

record state =
  files :: "path list"
  invoked :: "command list"
  printed :: "message list"
  written :: "(path \<times> string list) list"
  rng_pos :: nat

type_synonym loudness_info = "(string \<times> string) list"

type_synonym loudness_results = "(path \<times> pyfloat \<times> loudness_info) list"

definition print :: "message \<Rightarrow> state \<Rightarrow> state" where
  "print m s = s\<lparr>printed := printed s @ [m]\<rparr>"

definition create :: "path \<Rightarrow> state \<Rightarrow> state" where
  "create p s = s\<lparr>files := p # files s\<rparr>"

section \<open>The functions of the script\<close>

text \<open>
  \<^verbatim>\<open>draw_progress_bar\<close> only renders a bar on standard output. Both loops call
  it with \<^verbatim>\<open>total = len(video_files)\<close>, which is at least 1 whenever a loop body
  runs, so its division cannot fail; it is left out of the model.
\<close>

definition and_then :: "py_error + 'a \<Rightarrow> ('a \<Rightarrow> py_error + 'b) \<Rightarrow> py_error + 'b" where
  "and_then r f = (case r of Inl e \<Rightarrow> Inl e | Inr x \<Rightarrow> f x)"

text \<open>
  \<^verbatim>\<open>run_command\<close>: the log file is opened for writing, the engine runs, and the
  result is whether it exited with 0. A successful command has written its output
  file; a failed one is taken to leave none.
\<close>

definition run_command :: "world \<Rightarrow> command \<Rightarrow> path \<Rightarrow> state \<Rightarrow> bool \<times> state" where
  "run_command w cmd log_file_path s =
     (let s1 = (create log_file_path s)\<lparr>invoked := invoked s @ [cmd]\<rparr>
      in if engine w cmd then (True, create (c_output cmd) s1) else (False, s1))"

text \<open>\<^verbatim>\<open>get_video_duration\<close>: only CalledProcessError is caught; \<^verbatim>\<open>float\<close> is
  inside the \<^verbatim>\<open>try\<close>, and its ValueError passes through.\<close>

definition get_video_duration ::
  "world \<Rightarrow> path \<Rightarrow> state \<Rightarrow> (py_error + pyfloat option) \<times> state" where
  "get_video_duration w video_file s =
     (case ffprobe w video_file of
        ProbeFloat x \<Rightarrow> (Inr (Some x), s)
      | ProbeText t \<Rightarrow> (Inl ValueError, s)
      | ProbeExit \<Rightarrow> (Inr None, print (ErrorDuration video_file) s))"

text \<open>The loop of \<^verbatim>\<open>analyze_loudness\<close> over the lines of the output. The unpacking
  \<^verbatim>\<open>key, value = ...\<close> raises ValueError unless the split gives two pieces.\<close>

fun parse_loudness :: "string list \<Rightarrow> loudness_info \<Rightarrow> py_error + loudness_info" where
  "parse_loudness [] loudness_info = Inr loudness_info"
| "parse_loudness (line # rest) loudness_info =
     (if CHR '':'' \<in> set line
      then (case split_colon1 (strip line) of
              [key, val] \<Rightarrow>
                parse_loudness rest (AList.update (strip key) (strip val) loudness_info)
            | _ \<Rightarrow> Inl ValueError)
      else parse_loudness rest loudness_info)"

definition analyze_loudness ::
  "world \<Rightarrow> path \<Rightarrow> path \<Rightarrow> state \<Rightarrow> (py_error + loudness_info option) \<times> state" where
  "analyze_loudness w video_file log_file_path s =
     (case loudnorm w video_file of
        LoudText result \<Rightarrow>
          (case parse_loudness (split_lines result) [] of
             Inl e \<Rightarrow> (Inl e, s)
           | Inr loudness_info \<Rightarrow> (Inr (Some loudness_info), s))
      | LoudExit output \<Rightarrow>
          (Inr None,
           (create log_file_path (print (ErrorLoudness video_file log_file_path) s))
             \<lparr>written := written s @ [(log_file_path, [output])]\<rparr>))"

text \<open>Subscripting a dict: a missing key raises KeyError.\<close>

definition dict_get :: "loudness_info \<Rightarrow> string \<Rightarrow> py_error + string" where
  "dict_get d k = (case map_of d k of None \<Rightarrow> Inl (KeyError k) | Some v \<Rightarrow> Inr v)"

text \<open>The f-string of the audio filter: five subscripts, evaluated left to right.\<close>

definition audio_filters :: "loudness_info \<Rightarrow> py_error + string" where
  "audio_filters audio_loudness =
     and_then (dict_get audio_loudness ''input_i'') (\<lambda>i.
     and_then (dict_get audio_loudness ''input_lra'') (\<lambda>lra.
     and_then (dict_get audio_loudness ''input_tp'') (\<lambda>tp.
     and_then (dict_get audio_loudness ''input_thresh'') (\<lambda>thresh.
     and_then (dict_get audio_loudness ''target_offset'') (\<lambda>offset.
       Inr (''loudnorm=I=-23:LRA=7:TP=-1.5:measured_I='' @ i @ '':measured_LRA='' @ lra
            @ '':measured_TP='' @ tp @ '':measured_thresh='' @ thresh @ '':offset='' @ offset
            @ '':linear=true:print_format=summary''))))))"

definition reencode_videos ::
  "world \<Rightarrow> path \<Rightarrow> real \<Rightarrow> real \<Rightarrow> path \<Rightarrow> path \<Rightarrow> real \<Rightarrow> loudness_info \<Rightarrow> state
     \<Rightarrow> (py_error + bool) \<times> state" where
  "reencode_videos w video_file start_time duration output_path log_file_path fade_duration
       audio_loudness s =
     (let fade_in_start = 0;
          fade_out_start = max (duration - fade_duration) 0
      in case audio_filters audio_loudness of
           Inl e \<Rightarrow> (Inl e, s)
         | Inr af \<Rightarrow>
             (case run_command w
                     (Reencode video_file start_time duration fade_in_start fade_out_start
                        fade_duration af output_path)
                     log_file_path s of
                (ok, s') \<Rightarrow> (Inr ok, s')))"

subsection \<open>The random source\<close>

text \<open>
  \<^verbatim>\<open>random.randint(a, b)\<close> raises ValueError on an empty range and otherwise returns
  \<open>a\<close> plus a draw below \<open>b - a + 1\<close>. \<^verbatim>\<open>random.sample(population, k)\<close> raises
  ValueError when \<open>k\<close> exceeds the population and otherwise picks \<open>k\<close> positions
  without replacement, here by drawing a position of the remaining pool each time. The
  raw draws are those of the surroundings, consumed in order.
\<close>

definition randint :: "world \<Rightarrow> int \<Rightarrow> int \<Rightarrow> state \<Rightarrow> (py_error + int) \<times> state" where
  "randint w a b s =
     (if b < a then (Inl ValueError, s)
      else (Inr (a + int (rng w (rng_pos s) mod nat (b - a + 1))),
            s\<lparr>rng_pos := Suc (rng_pos s)\<rparr>))"

fun sample_pool :: "world \<Rightarrow> path list \<Rightarrow> nat \<Rightarrow> state \<Rightarrow> path list \<times> state" where
  "sample_pool w pool 0 s = ([], s)"
| "sample_pool w pool (Suc k) s =
     (let j = rng w (rng_pos s) mod length pool
      in case sample_pool w (take j pool @ drop (Suc j) pool) k (s\<lparr>rng_pos := Suc (rng_pos s)\<rparr>) of
           (rest, s') \<Rightarrow> (pool ! j # rest, s'))"

definition sample :: "world \<Rightarrow> path list \<Rightarrow> nat \<Rightarrow> state \<Rightarrow> (py_error + path list) \<times> state" where
  "sample w population k s =
     (if length population < k then (Inl ValueError, s)
      else (case sample_pool w population k s of (chosen, s') \<Rightarrow> (Inr chosen, s')))"

subsection \<open>The stages of main\<close>

text \<open>Lines 90 to 97: the loop that measures each sampled file and fills
  \<^verbatim>\<open>loudness_results\<close>, a dict keyed by the file (insertion order kept). The test
  \<^verbatim>\<open>duration and duration >= 80\<close> is false for \<^verbatim>\<open>None\<close>; \<^verbatim>\<open>if loudness_info\<close> is
  false for \<^verbatim>\<open>None\<close> and for the empty dict.\<close>

fun analyze_videos ::
  "world \<Rightarrow> path \<Rightarrow> nat \<Rightarrow> path list \<Rightarrow> loudness_results \<Rightarrow> state
     \<Rightarrow> (py_error + loudness_results) \<times> state" where
  "analyze_videos w ffmpeg_logs_dir i [] loudness_results s = (Inr loudness_results, s)"
| "analyze_videos w ffmpeg_logs_dir i (video_file # rest) loudness_results s =
     (case get_video_duration w video_file s of
        (Inl e, s1) \<Rightarrow> (Inl e, s1)
      | (Inr None, s1) \<Rightarrow> analyze_videos w ffmpeg_logs_dir (Suc i) rest loudness_results s1
      | (Inr (Some duration), s1) \<Rightarrow>
          if float_truthy duration \<and> float_ge duration 80
          then (case analyze_loudness w video_file
                       (join ffmpeg_logs_dir (loudness_log_name i)) s1 of
                  (Inl e, s2) \<Rightarrow> (Inl e, s2)
                | (Inr None, s2) \<Rightarrow>
                    analyze_videos w ffmpeg_logs_dir (Suc i) rest loudness_results s2
                | (Inr (Some loudness_info), s2) \<Rightarrow>
                    if loudness_info \<noteq> []
                    then analyze_videos w ffmpeg_logs_dir (Suc i) rest
                           (AList.update video_file (duration, loudness_info) loudness_results) s2
                    else analyze_videos w ffmpeg_logs_dir (Suc i) rest loudness_results s2)
          else analyze_videos w ffmpeg_logs_dir (Suc i) rest loudness_results s1)"

text \<open>Line 107: \<^verbatim>\<open>random.randint(10, int(duration) - 70)\<close>.\<close>

definition draw_start_time :: "world \<Rightarrow> pyfloat \<Rightarrow> state \<Rightarrow> (py_error + int) \<times> state" where
  "draw_start_time w duration s =
     (case py_int duration of
        Inl e \<Rightarrow> (Inl e, s)
      | Inr d \<Rightarrow> randint w 10 (d - 70) s)"

text \<open>Lines 105 to 116: one re-encode per entry of \<^verbatim>\<open>loudness_results\<close>, numbered
  from 1; \<^verbatim>\<open>clip_list\<close> and \<^verbatim>\<open>failed\<close> are the accumulators of the loop.\<close>

fun process_clips ::
  "world \<Rightarrow> path \<Rightarrow> path \<Rightarrow> real \<Rightarrow> nat \<Rightarrow> loudness_results \<Rightarrow> path list \<Rightarrow> nat \<Rightarrow> state
     \<Rightarrow> (py_error + path list \<times> nat) \<times> state" where
  "process_clips w temp_dir ffmpeg_logs_dir fade_duration i [] clip_list failed s =
     (Inr (clip_list, failed), s)"
| "process_clips w temp_dir ffmpeg_logs_dir fade_duration i
       ((video_file, duration, loudness_info) # rest) clip_list failed s =
     (case draw_start_time w duration s of
        (Inl e, s1) \<Rightarrow> (Inl e, s1)
      | (Inr start_time, s1) \<Rightarrow>
          (let temp_clip_path = join temp_dir (temp_clip_name i)
           in case reencode_videos w video_file (of_int start_time) 60 temp_clip_path
                     (join ffmpeg_logs_dir (video_log_name i)) fade_duration loudness_info s1 of
                (Inl e, s2) \<Rightarrow> (Inl e, s2)
              | (Inr True, s2) \<Rightarrow>
                  process_clips w temp_dir ffmpeg_logs_dir fade_duration (Suc i) rest
                    (clip_list @ [temp_clip_path]) failed s2
              | (Inr False, s2) \<Rightarrow>
                  process_clips w temp_dir ffmpeg_logs_dir fade_duration (Suc i) rest
                    clip_list (Suc failed) (print (FailedVideo video_file) s2)))"

text \<open>Lines 120 to 125: the lines of the concat manifest; \<open>i\<close> is the index of
  \<^verbatim>\<open>enumerate\<close>.\<close>

definition file_line :: "path \<Rightarrow> string" where
  "file_line p = ''file '' @ [CHR 0x27] @ p @ [CHR 0x27, CHR 0x0A]"

fun concat_lines :: "path \<Rightarrow> nat \<Rightarrow> path list \<Rightarrow> string list" where
  "concat_lines common_clip_temp i [] = []"
| "concat_lines common_clip_temp i (clip_path # rest) =
     (if 0 < i then [file_line common_clip_temp] else [])
     @ [file_line clip_path] @ concat_lines common_clip_temp (Suc i) rest"

text \<open>Lines 120 to 129: write the manifest, run the concat command, report its failure.\<close>

definition concatenate ::
  "world \<Rightarrow> path \<Rightarrow> path \<Rightarrow> path \<Rightarrow> path list \<Rightarrow> path \<Rightarrow> state \<Rightarrow> state" where
  "concatenate w temp_dir ffmpeg_logs_dir common_clip_temp clip_list output_file s =
     (let concat_list_path = join temp_dir ''concat_list.txt'';
          s1 = (create concat_list_path s)
                 \<lparr>written := written s @ [(concat_list_path, concat_lines common_clip_temp 0 clip_list)]\<rparr>;
          concat_log = join ffmpeg_logs_dir ''concat.log''
      in case run_command w (Concat concat_list_path output_file) concat_log s1 of
           (True, s2) \<Rightarrow> s2
         | (False, s2) \<Rightarrow> print (FailedConcat concat_log) s2)"

text \<open>Lines 105 to 129 together: what follows a successful common-clip step.\<close>

definition process_and_concatenate ::
  "world \<Rightarrow> path \<Rightarrow> path \<Rightarrow> path \<Rightarrow> real \<Rightarrow> loudness_results \<Rightarrow> path \<Rightarrow> state
     \<Rightarrow> (py_error + unit) \<times> state" where
  "process_and_concatenate w temp_dir ffmpeg_logs_dir common_clip_temp fade_duration
       loudness_results output_file s =
     (case process_clips w temp_dir ffmpeg_logs_dir fade_duration 1 loudness_results [] 0 s of
        (Inl e, s1) \<Rightarrow> (Inl e, s1)
      | (Inr (clip_list, failed), s1) \<Rightarrow>
          (Inr (), concatenate w temp_dir ffmpeg_logs_dir common_clip_temp clip_list output_file
                     (print (ProcessingComplete failed) s1)))"

text \<open>Lines 82 to 129: the body of the \<^verbatim>\<open>with\<close> block.\<close>

definition main_body ::
  "world \<Rightarrow> path list \<Rightarrow> path \<Rightarrow> real \<Rightarrow> path \<Rightarrow> path \<Rightarrow> state \<Rightarrow> (py_error + unit) \<times> state" where
  "main_body w video_files common_clip fade_duration output_file temp_dir s =
     (let ffmpeg_logs_dir = join temp_dir ''logs'';
          s1 = create ffmpeg_logs_dir s;
          max_videos = 60
      in case sample w video_files (min max_videos (length video_files)) s1 of
           (Inl e, s2) \<Rightarrow> (Inl e, s2)
         | (Inr sampled, s2) \<Rightarrow>
             (case analyze_videos w ffmpeg_logs_dir 0 sampled [] (print Analyzing s2) of
                (Inl e, s3) \<Rightarrow> (Inl e, s3)
              | (Inr loudness_results, s3) \<Rightarrow>
                  (let s4 = print FinishedAnalyzing s3;
                       common_clip_temp = join temp_dir ''common_clip.mp4''
                   in case reencode_videos w common_clip 0 fade_duration common_clip_temp
                             (join ffmpeg_logs_dir ''common_clip.log'') fade_duration [] s4 of
                        (Inl e, s5) \<Rightarrow> (Inl e, s5)
                      | (Inr False, s5) \<Rightarrow> (Inr (), print (FailedCommonClip common_clip) s5)
                      | (Inr True, s5) \<Rightarrow>
                          process_and_concatenate w temp_dir ffmpeg_logs_dir common_clip_temp
                            fade_duration loudness_results output_file s5)))"

text \<open>\<^verbatim>\<open>with TemporaryDirectory() as temp_dir\<close>: the directory is created, the body
  runs, and the directory with all it holds is removed however the body ends; an
  exception of the body is raised again after the removal.\<close>

definition with_temporary_directory ::
  "world \<Rightarrow> (path \<Rightarrow> state \<Rightarrow> (py_error + unit) \<times> state) \<Rightarrow> state \<Rightarrow> (py_error + unit) \<times> state" where
  "with_temporary_directory w body s =
     (let temp_dir = mkdtemp w
      in case body temp_dir (create temp_dir s) of
           (r, s1) \<Rightarrow> (r, s1\<lparr>files := filter (\<lambda>p. \<not> inside temp_dir p) (files s1)\<rparr>))"

text \<open>Lines 68 to 79: the checks made before the temporary directory exists.\<close>

definition preflight_ok :: "world \<Rightarrow> path \<Rightarrow> path \<Rightarrow> bool" where
  "preflight_ok w video_folder common_clip =
     (which w ''ffmpeg'' \<and> which w ''ffprobe'' \<and> isdir w video_folder
      \<and> path_exists w common_clip \<and> glob w (join video_folder ''*'') \<noteq> [])"

definition main :: "world \<Rightarrow> path \<Rightarrow> path \<Rightarrow> real \<Rightarrow> path \<Rightarrow> state \<Rightarrow> (py_error + unit) \<times> state" where
  "main w video_folder common_clip fade_duration output_file s =
     (if \<not> which w ''ffmpeg'' \<or> \<not> which w ''ffprobe'' then (Inr (), print MissingTools s)
      else if \<not> isdir w video_folder \<or> \<not> path_exists w common_clip
      then (Inr (), print MissingInputs s)
      else (let video_files = glob w (join video_folder ''*'')
            in if video_files = [] then (Inr (), print NoVideoFiles s)
               else with_temporary_directory w
                      (main_body w video_files common_clip fade_duration output_file) s))"

text \<open>What lines 91 to 96 store for one file, read off the answers of the
  surroundings: the entry of \<^verbatim>\<open>loudness_results\<close>, or nothing.\<close>

definition retained :: "world \<Rightarrow> path \<Rightarrow> (pyfloat \<times> loudness_info) option" where
  "retained w f =
     (case ffprobe w f of
        ProbeFloat d \<Rightarrow>
          (if float_truthy d \<and> float_ge d 80
           then (case loudnorm w f of
                   LoudText t \<Rightarrow>
                     (case parse_loudness (split_lines t) [] of
                        Inr info \<Rightarrow> if info \<noteq> [] then Some (d, info) else None
                      | Inl e \<Rightarrow> None)
                 | LoudExit out \<Rightarrow> None)
           else None)
      | ProbeText t \<Rightarrow> None
      | ProbeExit \<Rightarrow> None)"

text \<open>The lines the measuring loop prints for the file at index \<open>i\<close>: one for a
  duration probe that exited with an error, one for a loudness pass that did, none
  otherwise.\<close>

definition drop_messages :: "world \<Rightarrow> path \<Rightarrow> nat \<Rightarrow> path \<Rightarrow> message list" where
  "drop_messages w ffmpeg_logs_dir i video_file =
     (case ffprobe w video_file of
        ProbeExit \<Rightarrow> [ErrorDuration video_file]
      | ProbeText t \<Rightarrow> []
      | ProbeFloat d \<Rightarrow>
          (if float_truthy d \<and> float_ge d 80
           then (case loudnorm w video_file of
                   LoudExit out \<Rightarrow>
                     [ErrorLoudness video_file (join ffmpeg_logs_dir (loudness_log_name i))]
                 | LoudText t \<Rightarrow> [])
           else []))"

section \<open>A concrete run, for the examples\<close>

text \<open>
  A folder of four files lasting 50, 90, 200.5 and 80 seconds; the loudness pass prints
  the five statistics for each; the engine fails on the third file only; the random
  source yields 0, 1, 2, ... The jobs are those of the three files that are long enough.
\<close>

definition stats0 :: loudness_info where
  "stats0 = [(''input_i'', ''-20.1''), (''input_lra'', ''5.0''), (''input_tp'', ''-1.0''),
             (''input_thresh'', ''-30.5''), (''target_offset'', ''0.3'')]"

definition loudness_text0 :: string where
  "loudness_text0 = ''input_i: -20.1
input_lra: 5.0
input_tp: -1.0
input_thresh: -30.5
target_offset: 0.3''"

definition world0 :: world where
  "world0 = \<lparr>which = (\<lambda>_. True), isdir = (\<lambda>_. True), path_exists = (\<lambda>_. True),
     glob = (\<lambda>_. [''v/a.mp4'', ''v/b.mp4'', ''v/c.mp4'', ''v/d.mp4'']), mkdtemp = ''/tmp/ph'',
     ffprobe = (\<lambda>p. if p = ''v/a.mp4'' then ProbeFloat (Fin 50)
                     else if p = ''v/b.mp4'' then ProbeFloat (Fin 90)
                     else if p = ''v/c.mp4'' then ProbeFloat (Fin 200.5) else ProbeFloat (Fin 80)),
     loudnorm = (\<lambda>_. LoudText loudness_text0),
     engine = (\<lambda>c. case c of Reencode f _ _ _ _ _ _ _ \<Rightarrow> f \<noteq> ''v/c.mp4'' | Concat _ _ \<Rightarrow> True),
     rng = (\<lambda>n. n)\<rparr>"

definition state0 :: state where
  "state0 = \<lparr>files = [], invoked = [], printed = [], written = [], rng_pos = 0\<rparr>"

definition jobs0 :: loudness_results where
  "jobs0 = [(''v/b.mp4'', Fin 90, stats0), (''v/c.mp4'', Fin 200.5, stats0), (''v/d.mp4'', Fin 80, stats0)]"

text \<open>The same folder where the probe of the second file and the loudness pass of the
  third exit with an error; and surroundings without the two tools.\<close>

definition world3 :: world where
  "world3 = world0\<lparr>ffprobe := (\<lambda>p. if p = ''v/b.mp4'' then ProbeExit else ffprobe world0 p),
                     loudnorm := (\<lambda>p. if p = ''v/c.mp4'' then LoudExit ''no audio''
                                      else LoudText loudness_text0)\<rparr>"

definition world_no_tools :: world where
  "world_no_tools = world0\<lparr>which := (\<lambda>_. False)\<rparr>"

text \<open>A line of the statistics as ffmpeg prints them with \<^verbatim>\<open>print_format=json\<close>:
  a tab, the key in double quotes, a colon, the value in double quotes, a comma.\<close>

definition json_line0 :: string where
  "json_line0 = [CHR 0x09, CHR 0x22] @ ''input_i'' @ [CHR 0x22] @ '' : '' @ [CHR 0x22] @ ''-27.61''
                 @ [CHR 0x22] @ '',''"

section \<open>Paths and text\<close>

lemma inside_join: "inside d p \<Longrightarrow> b = [] \<or> hd b \<noteq> CHR ''/'' \<Longrightarrow> inside d (join p b)"
  unfolding inside_def
  by (auto simp: join_def prefix_def)

lemma inside_self: "inside d d"
  by (simp add: inside_def)

lemma file_line_inj: "file_line p = file_line q \<longleftrightarrow> p = q"
  by (simp add: file_line_def)

lemma temp_clip_not_common:
  "join d (temp_clip_name k) \<noteq> join d ''common_clip.mp4''"
  by (simp add: join_def temp_clip_name_def)

lemma in_set_strip: "c \<in> set s \<Longrightarrow> \<not> is_space c \<Longrightarrow> c \<in> set (strip s)"
proof -
  have dw: "\<And>xs. c \<in> set xs \<Longrightarrow> \<not> is_space c \<Longrightarrow> c \<in> set (dropWhile is_space xs)"
    subgoal for xs by (induction xs) auto
    done
  assume "c \<in> set s" "\<not> is_space c"
  then show ?thesis unfolding strip_def by (simp add: dw)
qed

text \<open>The unpacking in \<^verbatim>\<open>analyze_loudness\<close> never fails: a line that holds a colon
  still holds it after \<^verbatim>\<open>strip\<close>, so the split gives two pieces.\<close>

lemma parse_loudness_total: "\<exists>info. parse_loudness ls acc = Inr info"
proof (induction ls arbitrary: acc)
  case Nil
  then show ?case by simp
next
  case (Cons line rest)
  show ?case
  proof (cases "CHR '':'' \<in> set line")
    case True
    then have "CHR '':'' \<in> set (strip line)"
      by (rule in_set_strip) (simp add: is_space_def)
    then show ?thesis using Cons.IH True by (simp add: split_colon1_def)
  next
    case False
    then show ?thesis using Cons.IH by simp
  qed
qed

section \<open>The concat manifest\<close>

lemma nth_pairs:
  "k < 2 * length xs \<Longrightarrow>
   concat (map (\<lambda>x. [a, f x]) xs) ! k = (if even k then a else f (xs ! (k div 2)))"
proof (induction xs arbitrary: k)
  case Nil
  then show ?case by simp
next
  case (Cons x xs)
  show ?case
  proof (cases k)
    case 0
    then show ?thesis by simp
  next
    case (Suc k1)
    show ?thesis
    proof (cases k1)
      case 0
      with Suc show ?thesis by simp
    next
      case (Suc k2)
      with \<open>k = Suc k1\<close> Cons.prems have "k2 < 2 * length xs" by simp
      from Cons.IH [OF this] show ?thesis using Suc \<open>k = Suc k1\<close> by simp
    qed
  qed
qed

lemma concat_lines_Suc:
  "concat_lines c (Suc i) xs = concat (map (\<lambda>x. [file_line c, file_line x]) xs)"
  by (induction xs arbitrary: i) auto

lemma length_concat_lines_Suc: "length (concat_lines c (Suc i) xs) = 2 * length xs"
  by (induction xs arbitrary: i) auto

lemma nth_concat_lines:
  assumes "j < length (concat_lines c 0 xs)"
  shows "concat_lines c 0 xs ! j = (if even j then file_line (xs ! (j div 2)) else file_line c)"
proof (cases xs)
  case Nil
  with assms show ?thesis by simp
next
  case (Cons x rest)
  show ?thesis
  proof (cases j)
    case 0
    then show ?thesis using Cons by simp
  next
    case (Suc k)
    with assms Cons have k: "k < 2 * length rest" by (simp add: length_concat_lines_Suc)
    have "concat_lines c 0 xs ! j = concat (map (\<lambda>y. [file_line c, file_line y]) rest) ! k"
      using Cons Suc by (simp add: concat_lines_Suc)
    also have "\<dots> = (if even k then file_line c else file_line (rest ! (k div 2)))"
      using k by (rule nth_pairs)
    finally show ?thesis using Suc Cons by (auto elim: oddE)
  qed
qed

section \<open>Effects of the single steps\<close>

lemma invoked_print [simp]: "invoked (print m s) = invoked s"
  by (simp add: print_def)

lemma files_print [simp]: "files (print m s) = files s"
  by (simp add: print_def)

lemma rng_pos_print [simp]: "rng_pos (print m s) = rng_pos s"
  by (simp add: print_def)

lemma written_print [simp]: "written (print m s) = written s"
  by (simp add: print_def)

lemma printed_print [simp]: "printed (print m s) = printed s @ [m]"
  by (simp add: print_def)

lemma create_simps [simp]:
  "files (create p s) = p # files s" "invoked (create p s) = invoked s"
  "printed (create p s) = printed s" "written (create p s) = written s"
  "rng_pos (create p s) = rng_pos s"
  by (simp_all add: create_def)

lemma draw_start_time_Inr:
  assumes "draw_start_time w d s = (Inr st, s')"
  shows "\<exists>r. d = Fin r \<and> 10 \<le> st \<and> real_of_int st + 70 \<le> r \<and> s' = s\<lparr>rng_pos := Suc (rng_pos s)\<rparr>"
proof (cases d)
  case (Fin r)
  have pos: "0 \<le> r"
  proof (rule ccontr)
    assume "\<not> 0 \<le> r"
    then have "\<lceil>r\<rceil> \<le> 0" by (simp add: ceiling_le_iff)
    with \<open>\<not> 0 \<le> r\<close> assms Fin show False
      by (simp add: draw_start_time_def randint_def)
  qed
  from assms Fin pos have nb: "80 \<le> \<lfloor>r\<rfloor>"
    by (auto simp: draw_start_time_def randint_def split: if_splits)
  from assms Fin pos nb have st: "st = 10 + int (rng w (rng_pos s) mod nat (\<lfloor>r\<rfloor> - 79))"
    and s': "s' = s\<lparr>rng_pos := Suc (rng_pos s)\<rparr>"
    by (auto simp: draw_start_time_def randint_def split: if_splits)
  have "rng w (rng_pos s) mod nat (\<lfloor>r\<rfloor> - 79) < nat (\<lfloor>r\<rfloor> - 79)"
    using nb by (intro mod_less_divisor) simp
  then have "st + 70 \<le> \<lfloor>r\<rfloor>" using st nb by linarith
  then have "real_of_int st + 70 \<le> r" by linarith
  moreover have "10 \<le> st" using st by simp
  ultimately show ?thesis using Fin s' by simp
qed (use assms in \<open>auto simp: draw_start_time_def\<close>)

lemma draw_start_time_ok:
  assumes "80 \<le> r"
  shows "\<exists>st. draw_start_time w (Fin r) s = (Inr st, s\<lparr>rng_pos := Suc (rng_pos s)\<rparr>)"
proof -
  from assms have "80 \<le> \<lfloor>r\<rfloor>" by linarith
  then show ?thesis using assms by (simp add: draw_start_time_def randint_def)
qed

lemma reencode_videos_Inr:
  assumes "reencode_videos w f st d out lg fade info s = (Inr ok, s')"
  shows "\<exists>af. audio_filters info = Inr af \<and>
     ok = engine w (Reencode f st d 0 (max (d - fade) 0) fade af out) \<and>
     invoked s' = invoked s @ [Reencode f st d 0 (max (d - fade) 0) fade af out] \<and>
     files s' = (if ok then [out] else []) @ lg # files s \<and>
     printed s' = printed s \<and> written s' = written s \<and> rng_pos s' = rng_pos s"
  using assms
  by (auto simp: reencode_videos_def run_command_def Let_def split: sum.splits if_splits)

section \<open>The per-clip loop\<close>

lemma process_clips_Inr:
  assumes "process_clips w tmp logs fade i results clips failed s = (Inr (clips', failed'), s')"
  shows "\<exists>cmds. invoked s' = invoked s @ cmds \<and>
     list_all2 (\<lambda>c (f, d, info). c_input c = f \<and> c_t c = 60 \<and> audio_filters info = Inr (c_af c)
                  \<and> (\<exists>r. d = Fin r \<and> 10 \<le> c_ss c \<and> c_ss c + 70 \<le> r)) cmds results \<and>
     map c_output cmds = map (\<lambda>k. join tmp (temp_clip_name k)) [i ..< i + length results] \<and>
     clips' = clips @ map c_output (filter (engine w) cmds) \<and>
     failed' = failed + length (filter (\<lambda>c. \<not> engine w c) cmds) \<and>
     printed s' = printed s @ map (\<lambda>c. FailedVideo (c_input c)) (filter (\<lambda>c. \<not> engine w c) cmds) \<and>
     written s' = written s"
  using assms
proof (induction results arbitrary: i clips failed s)
  case Nil
  then show ?case by simp
next
  case (Cons job rest)
  obtain f d info where job: "job = (f, d, info)" by (cases job) auto
  from Cons.prems job obtain st s1 where dr: "draw_start_time w d s = (Inr st, s1)"
    by (auto split: prod.splits sum.splits)
  from draw_start_time_Inr [OF dr] obtain r where d: "d = Fin r" and st: "10 \<le> st" "real_of_int st + 70 \<le> r"
    and s1: "s1 = s\<lparr>rng_pos := Suc (rng_pos s)\<rparr>" by blast
  let ?out = "join tmp (temp_clip_name i)"
  from Cons.prems job dr obtain ok s2 where
    re: "reencode_videos w f (of_int st) 60 ?out (join logs (video_log_name i)) fade info s1 = (Inr ok, s2)"
    by (auto simp: Let_def split: prod.splits sum.splits)
  from reencode_videos_Inr [OF re] obtain af where af: "audio_filters info = Inr af"
    and ok: "ok = engine w (Reencode f (of_int st) 60 0 (max (60 - fade) 0) fade af ?out)"
    and inv: "invoked s2 = invoked s1 @ [Reencode f (of_int st) 60 0 (max (60 - fade) 0) fade af ?out]"
    and pr: "printed s2 = printed s1" and wr: "written s2 = written s1"
    by blast
  let ?c = "Reencode f (of_int st) 60 0 (max (60 - fade) 0) fade af ?out"
  have upt: "[i ..< i + length (job # rest)] = i # [Suc i ..< Suc i + length rest]"
    using upt_conv_Cons [of i "i + Suc (length rest)"] by simp
  show ?case
  proof (cases ok)
    case True
    with Cons.prems job dr re have
      "process_clips w tmp logs fade (Suc i) rest (clips @ [?out]) failed s2 = (Inr (clips', failed'), s')"
      by simp
    from Cons.IH [OF this] obtain cmds where
      "invoked s' = invoked s2 @ cmds"
      "list_all2 (\<lambda>c (f, d, info). c_input c = f \<and> c_t c = 60 \<and> audio_filters info = Inr (c_af c)
                  \<and> (\<exists>r. d = Fin r \<and> 10 \<le> c_ss c \<and> c_ss c + 70 \<le> r)) cmds rest"
      "map c_output cmds = map (\<lambda>k. join tmp (temp_clip_name k)) [Suc i ..< Suc i + length rest]"
      "clips' = (clips @ [?out]) @ map c_output (filter (engine w) cmds)"
      "failed' = failed + length (filter (\<lambda>c. \<not> engine w c) cmds)"
      "printed s' = printed s2 @ map (\<lambda>c. FailedVideo (c_input c)) (filter (\<lambda>c. \<not> engine w c) cmds)"
      "written s' = written s2"
      by blast
    then show ?thesis
      using True ok inv pr wr s1 job d st af upt
      by (intro exI [of _ "?c # cmds"]) simp
  next
    case False
    with Cons.prems job dr re have
      "process_clips w tmp logs fade (Suc i) rest clips (Suc failed) (print (FailedVideo f) s2)
         = (Inr (clips', failed'), s')"
      by simp
    from Cons.IH [OF this] obtain cmds where
      "invoked s' = invoked s2 @ cmds"
      "list_all2 (\<lambda>c (f, d, info). c_input c = f \<and> c_t c = 60 \<and> audio_filters info = Inr (c_af c)
                  \<and> (\<exists>r. d = Fin r \<and> 10 \<le> c_ss c \<and> c_ss c + 70 \<le> r)) cmds rest"
      "map c_output cmds = map (\<lambda>k. join tmp (temp_clip_name k)) [Suc i ..< Suc i + length rest]"
      "clips' = clips @ map c_output (filter (engine w) cmds)"
      "failed' = Suc failed + length (filter (\<lambda>c. \<not> engine w c) cmds)"
      "printed s' = (printed s2 @ [FailedVideo f]) @ map (\<lambda>c. FailedVideo (c_input c)) (filter (\<lambda>c. \<not> engine w c) cmds)"
      "written s' = written s2"
      by auto
    then show ?thesis
      using False ok inv pr wr s1 job d st af upt
      by (intro exI [of _ "?c # cmds"]) simp
  qed
qed



lemma files_reencode_videos:
  "reencode_videos w f st d out lg fade info s = (r, s') \<Longrightarrow>
   set (files s') \<subseteq> insert out (insert lg (set (files s)))"
  by (auto simp: reencode_videos_def run_command_def Let_def split: sum.splits if_splits)

lemma files_draw_start_time:
  "draw_start_time w d s = (r, s') \<Longrightarrow> files s' = files s"
  by (auto simp: draw_start_time_def randint_def split: sum.splits if_splits)

lemma video_log_inside: "inside d logs \<Longrightarrow> inside d (join logs (video_log_name i))"
  by (rule inside_join) (simp_all add: video_log_name_def)

lemma loudness_log_inside: "inside d logs \<Longrightarrow> inside d (join logs (loudness_log_name i))"
  by (rule inside_join) (simp_all add: loudness_log_name_def)

lemma temp_clip_inside: "inside d (join d (temp_clip_name i))"
  by (rule inside_join) (simp_all add: temp_clip_name_def inside_self)

lemma files_process_clips:
  assumes "process_clips w tmp logs fade i results clips failed s = (r, s')" and "inside tmp logs"
  shows "set (files s') \<subseteq> set (files s) \<union> {p. inside tmp p}"
  using assms(1)
proof (induction results arbitrary: i clips failed s)
  case Nil
  then show ?case by auto
next
  case (Cons job rest)
  obtain f d info where job: "job = (f, d, info)" by (cases job) auto
  obtain r1 s1 where dr: "draw_start_time w d s = (r1, s1)" by (cases "draw_start_time w d s")
  then have f1: "files s1 = files s" by (rule files_draw_start_time)
  show ?case
  proof (cases r1)
    case (Inl e)
    with Cons.prems job dr f1 show ?thesis by auto
  next
    case (Inr st)
    obtain r2 s2 where re: "reencode_videos w f (of_int st) 60 (join tmp (temp_clip_name i))
        (join logs (video_log_name i)) fade info s1 = (r2, s2)"
      by (cases "reencode_videos w f (of_int st) 60 (join tmp (temp_clip_name i))
        (join logs (video_log_name i)) fade info s1")
    from files_reencode_videos [OF re] f1 temp_clip_inside [of tmp i] video_log_inside [OF assms(2), of i]
    have f2: "set (files s2) \<subseteq> set (files s) \<union> {p. inside tmp p}" by auto
    show ?thesis
    proof (cases r2)
      case (Inl e)
      with Cons.prems job dr Inr re f2 show ?thesis by auto
    next
      case ok: (Inr ok)
      show ?thesis
      proof (cases ok)
        case True
        with Cons.prems job dr Inr re ok have
          "process_clips w tmp logs fade (Suc i) rest (clips @ [join tmp (temp_clip_name i)]) failed s2 = (r, s')"
          by simp
        from Cons.IH [OF this] f2 show ?thesis by auto
      next
        case False
        with Cons.prems job dr Inr re ok have
          "process_clips w tmp logs fade (Suc i) rest clips (Suc failed) (print (FailedVideo f) s2) = (r, s')"
          by simp
        from Cons.IH [OF this] f2 show ?thesis by auto
      qed
    qed
  qed
qed

lemma files_concatenate:
  assumes "inside tmp logs"
  shows "set (files (concatenate w tmp logs common clips out s)) \<subseteq> set (files s) \<union> {p. inside tmp p} \<union> {out}"
proof -
  have 1: "inside tmp (join tmp ''concat_list.txt'')"
    by (rule inside_join) (simp_all add: inside_self)
  have 2: "inside tmp (join logs ''concat.log'')"
    using assms by (rule inside_join) simp
  show ?thesis using 1 2
    by (auto simp: concatenate_def run_command_def Let_def split: if_splits)
qed

lemma audio_filters_stats0: "audio_filters stats0 = Inr (''loudnorm=I=-23:LRA=7:TP=-1.5:measured_I=-20.1:measured_LRA=5.0:measured_TP=-1.0:measured_thresh=-30.5:offset=0.3:linear=true:print_format=summary'')"
  by (simp add: audio_filters_def stats0_def dict_get_def and_then_def)

lemma temp_clip_names: "temp_clip_name (Suc 0) = ''temp_clip_0001.mp4''" "temp_clip_name (Suc (Suc 0)) = ''temp_clip_0002.mp4''"
  "temp_clip_name (Suc (Suc (Suc 0))) = ''temp_clip_0003.mp4''"
  by code_simp+

lemma video_log_names: "video_log_name (Suc 0) = ''video_0001.log''" "video_log_name (Suc (Suc 0)) = ''video_0002.log''"
  "video_log_name (Suc (Suc (Suc 0))) = ''video_0003.log''"
  by code_simp+

lemma process_clips_jobs0: "fst (process_clips world0 ''/tmp/ph'' ''/tmp/ph/logs'' 2 1 jobs0 [] 0 state0)
   = Inr ([''/tmp/ph/temp_clip_0001.mp4'', ''/tmp/ph/temp_clip_0003.mp4''], 1)"
  by (simp add: jobs0_def world0_def state0_def draw_start_time_def randint_def reencode_videos_def
       audio_filters_stats0 run_command_def Let_def join_def create_def print_def temp_clip_names video_log_names)

lemma written_concatenate:
  "written (concatenate w tmp logs common clips out s) =
     written s @ [(join tmp ''concat_list.txt'', concat_lines common 0 clips)]"
  by (simp add: concatenate_def run_command_def Let_def)

section \<open>The measuring loop\<close>

lemma analyze_step_cases:
  assumes "analyze_videos w logs i (v # rest) res s = (Inr res', s')"
  shows "\<exists>s1. analyze_videos w logs (Suc i) rest
            (case retained w v of None \<Rightarrow> res | Some e \<Rightarrow> AList.update v e res) s1 = (Inr res', s')
          \<and> invoked s1 = invoked s \<and> rng_pos s1 = rng_pos s
          \<and> set (files s1) \<subseteq> insert (join logs (loudness_log_name i)) (set (files s))"
  using assms
  by (auto simp: get_video_duration_def analyze_loudness_def retained_def
           split: probe_out.splits loud_out.splits sum.splits if_splits option.splits)

lemma analyze_videos_map_of:
  assumes "analyze_videos w logs i vs res s = (Inr res', s')"
  shows "map_of res' f = (if f \<in> set vs \<and> retained w f \<noteq> None then retained w f else map_of res f)"
  using assms
proof (induction vs arbitrary: i res s)
  case Nil
  then show ?case by simp
next
  case (Cons v rest)
  from analyze_step_cases [OF Cons.prems] obtain s1 where
    "analyze_videos w logs (Suc i) rest
        (case retained w v of None \<Rightarrow> res | Some e \<Rightarrow> AList.update v e res) s1 = (Inr res', s')"
    by blast
  from Cons.IH [OF this] show ?case
    by (auto simp: update_conv' split: option.splits)
qed

lemma analyze_videos_distinct:
  assumes "analyze_videos w logs i vs res s = (Inr res', s')" "distinct (map fst res)"
  shows "distinct (map fst res')"
  using assms
proof (induction vs arbitrary: i res s)
  case Nil
  then show ?case by simp
next
  case (Cons v rest)
  from analyze_step_cases [OF Cons.prems(1)] obtain s1 where
    *: "analyze_videos w logs (Suc i) rest
        (case retained w v of None \<Rightarrow> res | Some e \<Rightarrow> AList.update v e res) s1 = (Inr res', s')"
    by blast
  have "distinct (map fst (case retained w v of None \<Rightarrow> res | Some e \<Rightarrow> AList.update v e res))"
    using Cons.prems(2) by (auto split: option.splits intro: distinct_update)
  from Cons.IH [OF * this] show ?case .
qed

lemma float_ge_truthy: "float_ge d 80 \<Longrightarrow> float_truthy d"
  by (cases d) auto

lemma parse_world0:
  "parse_loudness (split_lines loudness_text0) [] = Inr stats0"
  by code_simp

text \<open>What the measuring loop keeps, when it runs through: the files whose probe gave
  a number that is at least 80 and whose loudness pass exited with 0 and gave a mapping
  that is not empty.\<close>

lemma loudness_results_keys:
  assumes "analyze_videos w logs i video_files [] s = (Inr loudness_results, s')"
  shows "(f \<in> fst ` set loudness_results \<longleftrightarrow>
            f \<in> set video_files
          \<and> (\<exists>d. ffprobe w f = ProbeFloat d \<and> float_ge d 80)
          \<and> (\<exists>t info. loudnorm w f = LoudText t
                \<and> parse_loudness (split_lines t) [] = Inr info \<and> info \<noteq> []))
       \<and> (\<forall>(f, d, info) \<in> set loudness_results. ffprobe w f = ProbeFloat d \<and> float_ge d 80)"
proof -
  have m: "map_of loudness_results g = (if g \<in> set video_files then retained w g else None)" for g
    using analyze_videos_map_of [OF assms, of g] by (cases "retained w g") auto
  have dist: "distinct (map fst loudness_results)"
    using analyze_videos_distinct [OF assms] by simp
  have r: "retained w g \<noteq> None \<longleftrightarrow>
             (\<exists>d. ffprobe w g = ProbeFloat d \<and> float_ge d 80)
           \<and> (\<exists>t info. loudnorm w g = LoudText t
                \<and> parse_loudness (split_lines t) [] = Inr info \<and> info \<noteq> [])" for g
    by (auto simp: retained_def float_ge_truthy
             split: probe_out.splits loud_out.splits sum.splits if_splits)
  have "f \<in> fst ` set loudness_results \<longleftrightarrow> map_of loudness_results f \<noteq> None"
    by (simp add: map_of_eq_None_iff)
  also have "\<dots> \<longleftrightarrow> f \<in> set video_files \<and> retained w f \<noteq> None"
    by (simp add: m)
  finally have 1: "f \<in> fst ` set loudness_results \<longleftrightarrow>
            f \<in> set video_files
          \<and> (\<exists>d. ffprobe w f = ProbeFloat d \<and> float_ge d 80)
          \<and> (\<exists>t info. loudnorm w f = LoudText t
                \<and> parse_loudness (split_lines t) [] = Inr info \<and> info \<noteq> [])"
    unfolding r [of f] .
  have 2: "\<forall>(g, d, info) \<in> set loudness_results. ffprobe w g = ProbeFloat d \<and> float_ge d 80"
  proof (clarify)
    fix g d info assume "(g, d, info) \<in> set loudness_results"
    with dist have "map_of loudness_results g = Some (d, info)" by simp
    then have "retained w g = Some (d, info)" by (simp add: m split: if_splits)
    then show "ffprobe w g = ProbeFloat d \<and> float_ge d 80"
      by (auto simp: retained_def split: probe_out.splits loud_out.splits sum.splits if_splits)
  qed
  from 1 2 show ?thesis by blast
qed

section \<open>Exceptions of the single steps, and what the steps leave unchanged\<close>

lemma audio_filters_empty: "audio_filters [] = Inl (KeyError ''input_i'')"
  by (simp add: audio_filters_def dict_get_def and_then_def)

lemma reencode_videos_empty:
  "reencode_videos w f st d out lg fade [] s = (Inl (KeyError ''input_i''), s)"
  by (simp add: reencode_videos_def audio_filters_empty)

lemma parse_json_line0:
  "parse_loudness (split_lines json_line0) []
     = Inr [([CHR 0x22] @ ''input_i'' @ [CHR 0x22], [CHR 0x22] @ ''-27.61'' @ [CHR 0x22] @ '','')]"
  by code_simp

lemma analyze_loudness_never_raises:
  "\<exists>r s'. analyze_loudness w video_file log_file_path s = (Inr r, s')"
proof (cases "loudnorm w video_file")
  case (LoudExit out)
  then show ?thesis by (simp add: analyze_loudness_def)
next
  case (LoudText t)
  from parse_loudness_total [of "split_lines t" "[]"] obtain info where
    "parse_loudness (split_lines t) [] = Inr info" by blast
  with LoudText show ?thesis by (simp add: analyze_loudness_def)
qed

lemma get_video_duration_cases:
  "get_video_duration w f s = (r, s') \<Longrightarrow> invoked s' = invoked s \<and> files s' = files s
     \<and> written s' = written s \<and> rng_pos s' = rng_pos s"
  by (auto simp: get_video_duration_def split: probe_out.splits)

lemma sample_pool_frame:
  "sample_pool w pool k s = (r, s') \<Longrightarrow> invoked s' = invoked s \<and> files s' = files s
     \<and> written s' = written s \<and> printed s' = printed s"
proof (induction k arbitrary: pool s r s')
  case 0
  then show ?case by simp
next
  case (Suc k)
  let ?j = "rng w (rng_pos s) mod length pool"
  obtain rest s1 where rec: "sample_pool w (take ?j pool @ drop (Suc ?j) pool) k (s\<lparr>rng_pos := Suc (rng_pos s)\<rparr>) = (rest, s1)"
    by (cases "sample_pool w (take ?j pool @ drop (Suc ?j) pool) k (s\<lparr>rng_pos := Suc (rng_pos s)\<rparr>)")
  from Suc.IH [OF rec] Suc.prems rec show ?case by (simp add: Let_def)
qed

lemma sample_frame:
  "sample w pop k s = (r, s') \<Longrightarrow> invoked s' = invoked s \<and> files s' = files s
     \<and> written s' = written s \<and> printed s' = printed s"
  by (auto simp: sample_def split: if_splits prod.splits dest: sample_pool_frame)

lemma sample_ok:
  "k \<le> length pop \<Longrightarrow> \<exists>chosen s'. sample w pop k s = (Inr chosen, s')"
  by (auto simp: sample_def split: prod.splits)

lemma analyze_loudness_frame:
  "analyze_loudness w v lg s = (r, s') \<Longrightarrow>
   invoked s' = invoked s \<and> set (files s') \<subseteq> insert lg (set (files s))"
  by (auto simp: analyze_loudness_def split: loud_out.splits sum.splits)

lemma analyze_videos_frame:
  assumes "analyze_videos w logs i vs res s = (r, s')" "inside tmp logs"
  shows "invoked s' = invoked s \<and> set (files s') \<subseteq> set (files s) \<union> {p. inside tmp p}"
  using assms(1)
proof (induction vs arbitrary: i res s)
  case Nil
  then show ?case by auto
next
  case (Cons v rest)
  let ?lg = "join logs (loudness_log_name i)"
  have lg: "inside tmp ?lg"
    using assms(2) by (rule loudness_log_inside)
  obtain r1 s1 where g: "get_video_duration w v s = (r1, s1)"
    by (cases "get_video_duration w v s")
  from get_video_duration_cases [OF g] have g1: "invoked s1 = invoked s" "files s1 = files s"
    by simp_all
  obtain r2 s2 where a: "analyze_loudness w v ?lg s1 = (r2, s2)"
    by (cases "analyze_loudness w v ?lg s1")
  from analyze_loudness_frame [OF a] g1 have a1: "invoked s2 = invoked s"
    "set (files s2) \<subseteq> insert ?lg (set (files s))" by simp_all
  from Cons.prems g a have
    "s' = s1 \<or> s' = s2
     \<or> (\<exists>res1. analyze_videos w logs (Suc i) rest res1 s1 = (r, s'))
     \<or> (\<exists>res1. analyze_videos w logs (Suc i) rest res1 s2 = (r, s'))"
    by (auto split: sum.splits option.splits if_splits)
  then consider "s' = s1" | "s' = s2"
    | res1 where "analyze_videos w logs (Suc i) rest res1 s1 = (r, s')"
    | res1 where "analyze_videos w logs (Suc i) rest res1 s2 = (r, s')"
    by blast
  then show ?case
  proof cases
    case 1
    then show ?thesis using g1 by auto
  next
    case 2
    then show ?thesis using a1 lg by auto
  next
    case 3
    from Cons.IH [OF this] g1 show ?thesis by auto
  next
    case 4
    from Cons.IH [OF this] a1 lg show ?thesis by auto
  qed
qed

section \<open>The body of main and the temporary directory\<close>

lemma get_video_duration_error:
  "get_video_duration w f s = (Inl e, s') \<Longrightarrow> e = ValueError"
  by (auto simp: get_video_duration_def split: probe_out.splits)

lemma analyze_videos_error:
  assumes "analyze_videos w logs i vs res s = (Inl e, s')"
  shows "e = ValueError"
  using assms
proof (induction vs arbitrary: i res s)
  case Nil
  then show ?case by simp
next
  case (Cons v rest)
  let ?lg = "join logs (loudness_log_name i)"
  obtain r1 s1 where g: "get_video_duration w v s = (r1, s1)"
    by (cases "get_video_duration w v s")
  from analyze_loudness_never_raises [of w v ?lg s1] obtain r2 s2 where
    a: "analyze_loudness w v ?lg s1 = (Inr r2, s2)" by blast
  from Cons.prems g a have
    "(\<exists>e1. r1 = Inl e1 \<and> e = e1)
     \<or> (\<exists>res1. analyze_videos w logs (Suc i) rest res1 s1 = (Inl e, s'))
     \<or> (\<exists>res1. analyze_videos w logs (Suc i) rest res1 s2 = (Inl e, s'))"
    by (auto split: sum.splits option.splits if_splits)
  then consider e1 where "r1 = Inl e1" "e = e1"
    | res1 where "analyze_videos w logs (Suc i) rest res1 s1 = (Inl e, s')"
    | res1 where "analyze_videos w logs (Suc i) rest res1 s2 = (Inl e, s')"
    by blast
  then show ?case
  proof cases
    case 1
    with g show ?thesis by (auto dest: get_video_duration_error)
  next
    case 2
    then show ?thesis by (rule Cons.IH)
  next
    case 3
    then show ?thesis by (rule Cons.IH)
  qed
qed

lemma logs_inside: "inside tmp (join tmp ''logs'')"
  by (rule inside_join) (simp_all add: inside_self)

lemma common_clip_inside: "inside tmp (join tmp ''common_clip.mp4'')"
  by (rule inside_join) (simp_all add: inside_self)

lemma process_and_concatenate_frame:
  assumes "process_and_concatenate w tmp logs common fade res out s = (r, s')" "inside tmp logs"
  shows "set (files s') \<subseteq> set (files s) \<union> {p. inside tmp p} \<union> {out}"
proof -
  obtain r1 s1 where p: "process_clips w tmp logs fade 1 res [] 0 s = (r1, s1)"
    by (cases "process_clips w tmp logs fade 1 res [] 0 s")
  from files_process_clips [OF p assms(2)]
  have f1: "set (files s1) \<subseteq> set (files s) \<union> {p. inside tmp p}" .
  show ?thesis
  proof (cases r1)
    case (Inl e)
    with assms(1) p f1 show ?thesis by (auto simp: process_and_concatenate_def)
  next
    case (Inr cf)
    obtain clips failed where cf: "cf = (clips, failed)" by (cases cf)
    from assms(1) p Inr cf have
      s': "s' = concatenate w tmp logs common clips out (print (ProcessingComplete failed) s1)"
      by (simp add: process_and_concatenate_def)
    from files_concatenate [OF assms(2), of w common clips out "print (ProcessingComplete failed) s1"]
      f1 show ?thesis unfolding s' by auto
  qed
qed

lemma main_body_frame:
  assumes "main_body w vfs cc fade out tmp s = (r, s')"
  shows "set (files s') \<subseteq> set (files s) \<union> {p. inside tmp p} \<union> {out}"
proof -
  let ?logs = "join tmp ''logs''"
  let ?common = "join tmp ''common_clip.mp4''"
  note li = logs_inside [of tmp]
  obtain r2 s2 where sa: "sample w vfs (min 60 (length vfs)) (create ?logs s) = (r2, s2)"
    by (cases "sample w vfs (min 60 (length vfs)) (create ?logs s)")
  from sample_frame [OF sa] li have f2: "set (files s2) \<subseteq> set (files s) \<union> {p. inside tmp p}"
    by auto
  show ?thesis
  proof (cases r2)
    case (Inl e)
    with assms sa f2 show ?thesis by (auto simp: main_body_def Let_def)
  next
    case (Inr sampled)
    obtain r3 s3 where an: "analyze_videos w ?logs 0 sampled [] (print Analyzing s2) = (r3, s3)"
      by (cases "analyze_videos w ?logs 0 sampled [] (print Analyzing s2)")
    from analyze_videos_frame [OF an li] f2
    have f3: "set (files s3) \<subseteq> set (files s) \<union> {p. inside tmp p}" by auto
    show ?thesis
    proof (cases r3)
      case (Inl e)
      with assms sa Inr an f3 show ?thesis by (auto simp: main_body_def Let_def)
    next
      case res: (Inr res)
      obtain r5 s5 where re: "reencode_videos w cc 0 fade ?common (join ?logs ''common_clip.log'')
          fade [] (print FinishedAnalyzing s3) = (r5, s5)"
        by (cases "reencode_videos w cc 0 fade ?common (join ?logs ''common_clip.log'')
          fade [] (print FinishedAnalyzing s3)")
      have "inside tmp (join ?logs ''common_clip.log'')"
        using li by (rule inside_join) simp
      with files_reencode_videos [OF re] common_clip_inside [of tmp] f3
      have f5: "set (files s5) \<subseteq> set (files s) \<union> {p. inside tmp p}" by auto
      show ?thesis
      proof (cases r5)
        case (Inl e)
        with assms sa Inr an res re f5 show ?thesis by (auto simp: main_body_def Let_def)
      next
        case ok: (Inr ok)
        show ?thesis
        proof (cases ok)
          case False
          with assms sa Inr an res re ok f5 show ?thesis by (auto simp: main_body_def Let_def)
        next
          case True
          with assms sa Inr an res re ok have
            "process_and_concatenate w tmp ?logs ?common fade res out s5 = (r, s')"
            by (simp add: main_body_def Let_def)
          from process_and_concatenate_frame [OF this li] f5 show ?thesis by auto
        qed
      qed
    qed
  qed
qed

lemma main_body_raises:
  assumes "main_body w vfs cc fade out tmp s = (r, s')"
  shows "(r = Inl ValueError \<or> r = Inl (KeyError ''input_i'')) \<and> invoked s' = invoked s"
proof -
  let ?logs = "join tmp ''logs''"
  from sample_ok [of "min 60 (length vfs)" vfs w "create ?logs s"] obtain sampled s2 where
    sa: "sample w vfs (min 60 (length vfs)) (create ?logs s) = (Inr sampled, s2)" by auto
  from sample_frame [OF sa] have i2: "invoked s2 = invoked s" by simp
  obtain r3 s3 where an: "analyze_videos w ?logs 0 sampled [] (print Analyzing s2) = (r3, s3)"
    by (cases "analyze_videos w ?logs 0 sampled [] (print Analyzing s2)")
  from analyze_videos_frame [OF an logs_inside] i2 have i3: "invoked s3 = invoked s" by simp
  show ?thesis
  proof (cases r3)
    case (Inl e)
    with an have "e = ValueError" by (auto dest: analyze_videos_error)
    with assms sa an Inl i3 show ?thesis by (auto simp: main_body_def Let_def)
  next
    case (Inr res)
    with assms sa an i3 show ?thesis
      by (auto simp: main_body_def Let_def reencode_videos_empty)
  qed
qed

lemma main_preflight:
  "preflight_ok w vf cc \<Longrightarrow>
   main w vf cc fade out s
     = with_temporary_directory w (main_body w (glob w (join vf ''*'')) cc fade out) s"
  by (simp add: main_def preflight_ok_def Let_def)

lemma main_no_preflight:
  "\<not> preflight_ok w vf cc \<Longrightarrow> files (snd (main w vf cc fade out s)) = files s
     \<and> invoked (snd (main w vf cc fade out s)) = invoked s
     \<and> fst (main w vf cc fade out s) = Inr ()"
  by (auto simp: main_def preflight_ok_def Let_def)

lemma with_temporary_directory_clean:
  "\<forall>p \<in> set (files (snd (with_temporary_directory w body s))). \<not> inside (mkdtemp w) p"
  by (auto simp: with_temporary_directory_def Let_def split: prod.splits)

lemma with_temporary_directory_frame:
  assumes "\<And>r s'. body (mkdtemp w) (create (mkdtemp w) s) = (r, s') \<Longrightarrow>
             set (files s') \<subseteq> set (files (create (mkdtemp w) s)) \<union> {p. inside (mkdtemp w) p} \<union> {out}"
  shows "set (files (snd (with_temporary_directory w body s))) \<subseteq> set (files s) \<union> {out}"
proof -
  obtain r s1 where b: "body (mkdtemp w) (create (mkdtemp w) s) = (r, s1)"
    by (cases "body (mkdtemp w) (create (mkdtemp w) s)")
  from assms [OF b] have "set (files s1) \<subseteq> insert (mkdtemp w) (set (files s)) \<union> {p. inside (mkdtemp w) p} \<union> {out}"
    by simp
  then show ?thesis using b inside_self [of "mkdtemp w"]
    by (auto simp: with_temporary_directory_def Let_def)
qed

lemma with_temporary_directory_result:
  "body (mkdtemp w) (create (mkdtemp w) s) = (r, s1) \<Longrightarrow>
   fst (with_temporary_directory w body s) = r
   \<and> invoked (snd (with_temporary_directory w body s)) = invoked s1"
  by (simp add: with_temporary_directory_def Let_def)

lemma preflight_world0: "preflight_ok world0 ''v'' ''common.mp4''"
  by (simp add: preflight_ok_def world0_def)

lemma main_world0:
  "main world0 ''v'' ''common.mp4'' 2 ''out.mp4'' state0
     = (Inl (KeyError ''input_i''),
        \<lparr>files = [], invoked = [], printed = [Analyzing, FinishedAnalyzing], written = [], rng_pos = 4\<rparr>)"
  by code_simp

lemma tail_world0_files:
  "files (snd (with_temporary_directory world0
            (\<lambda>temp_dir. process_and_concatenate world0 temp_dir (join temp_dir ''logs'')
               (join temp_dir ''common_clip.mp4'') 2 jobs0 ''out.mp4'') state0)) = [''out.mp4'']"
  by code_simp

lemma concatenate_effect:
  "invoked (concatenate w tmp logs common clips out s)
      = invoked s @ [Concat (join tmp ''concat_list.txt'') out]
   \<and> printed (concatenate w tmp logs common clips out s)
      = printed s @ (if engine w (Concat (join tmp ''concat_list.txt'') out) then []
                     else [FailedConcat (join logs ''concat.log'')])
   \<and> files (concatenate w tmp logs common clips out s)
      = (if engine w (Concat (join tmp ''concat_list.txt'') out) then [out] else [])
        @ [join logs ''concat.log'', join tmp ''concat_list.txt''] @ files s"
  by (simp add: concatenate_def run_command_def Let_def)

lemma process_and_concatenate_Inr:
  "process_clips w tmp logs fade 1 results [] 0 s = (Inr (clips, failed), s1) \<Longrightarrow>
   process_and_concatenate w tmp logs common fade results out s
     = (Inr (), concatenate w tmp logs common clips out (print (ProcessingComplete failed) s1))"
  by (simp add: process_and_concatenate_def)

text \<open>Lines 120 to 129 have no check for an empty clip list: after a loop that
  produced no segment, the empty manifest is written and the concat command is run.\<close>

lemma concatenate_without_segments:
  assumes "process_clips w temp_dir logs fade 1 results [] 0 s = (Inr ([], failed), s1)"
  shows "let s' = snd (process_and_concatenate w temp_dir logs common fade results output_file s);
             concat_command = Concat (join temp_dir ''concat_list.txt'') output_file
         in invoked s' = invoked s1 @ [concat_command]
          \<and> written s' = written s @ [(join temp_dir ''concat_list.txt'', [])]
          \<and> (engine w concat_command \<longrightarrow>
                 printed s' = printed s1 @ [ProcessingComplete failed]
               \<and> output_file \<in> set (files s'))
          \<and> (\<not> engine w concat_command \<longrightarrow>
                 printed s' = printed s1 @ [ProcessingComplete failed, FailedConcat (join logs ''concat.log'')]
               \<and> files s' = [join logs ''concat.log'', join temp_dir ''concat_list.txt''] @ files s1)"
proof -
  from process_clips_Inr [OF assms] have wr: "written s1 = written s" by blast
  note pc = process_and_concatenate_Inr [OF assms, of common output_file]
  note ce = concatenate_effect [of w temp_dir logs common "[]" output_file "print (ProcessingComplete failed) s1"]
  show ?thesis
    unfolding Let_def pc using ce wr by (simp add: written_concatenate)
qed

section \<open>What every run of main does\<close>

lemma sample_pool_draws:
  "sample_pool w pool k s = (r, s') \<Longrightarrow> rng_pos s' = rng_pos s + k"
proof (induction k arbitrary: pool s r s')
  case 0
  then show ?case by simp
next
  case (Suc k)
  let ?j = "rng w (rng_pos s) mod length pool"
  obtain rest s1 where rec: "sample_pool w (take ?j pool @ drop (Suc ?j) pool) k (s\<lparr>rng_pos := Suc (rng_pos s)\<rparr>) = (rest, s1)"
    by (cases "sample_pool w (take ?j pool @ drop (Suc ?j) pool) k (s\<lparr>rng_pos := Suc (rng_pos s)\<rparr>)")
  from Suc.IH [OF rec] Suc.prems rec show ?case by (simp add: Let_def)
qed

lemma sample_draws:
  "sample w pop k s = (Inr chosen, s') \<Longrightarrow> rng_pos s' = rng_pos s + k"
  by (auto simp: sample_def split: if_splits prod.splits dest: sample_pool_draws)

lemma analyze_loudness_rng:
  "analyze_loudness w v lg s = (r, s') \<Longrightarrow> rng_pos s' = rng_pos s"
  by (auto simp: analyze_loudness_def split: loud_out.splits sum.splits)

lemma analyze_videos_rng:
  assumes "analyze_videos w logs i vs res s = (r, s')"
  shows "rng_pos s' = rng_pos s"
  using assms
proof (induction vs arbitrary: i res s)
  case Nil
  then show ?case by auto
next
  case (Cons v rest)
  let ?lg = "join logs (loudness_log_name i)"
  obtain r1 s1 where g: "get_video_duration w v s = (r1, s1)"
    by (cases "get_video_duration w v s")
  from get_video_duration_cases [OF g] have g1: "rng_pos s1 = rng_pos s" by simp
  obtain r2 s2 where a: "analyze_loudness w v ?lg s1 = (r2, s2)"
    by (cases "analyze_loudness w v ?lg s1")
  from analyze_loudness_rng [OF a] g1 have a1: "rng_pos s2 = rng_pos s" by simp
  from Cons.prems g a have
    "s' = s1 \<or> s' = s2
     \<or> (\<exists>res1. analyze_videos w logs (Suc i) rest res1 s1 = (r, s'))
     \<or> (\<exists>res1. analyze_videos w logs (Suc i) rest res1 s2 = (r, s'))"
    by (auto split: sum.splits option.splits if_splits)
  then consider "s' = s1" | "s' = s2"
    | res1 where "analyze_videos w logs (Suc i) rest res1 s1 = (r, s')"
    | res1 where "analyze_videos w logs (Suc i) rest res1 s2 = (r, s')"
    by blast
  then show ?case
  proof cases
    case 1
    then show ?thesis using g1 by simp
  next
    case 2
    then show ?thesis using a1 by simp
  next
    case 3
    from Cons.IH [OF this] g1 show ?thesis by simp
  next
    case 4
    from Cons.IH [OF this] a1 show ?thesis by simp
  qed
qed

lemma main_body_stops:
  assumes "main_body w vfs cc fade out tmp s = (r, s')"
  shows "rng_pos s' = rng_pos s + min 60 (length vfs)
       \<and> set (files s') \<subseteq> set (files s) \<union> {p. inside tmp p}"
proof -
  let ?logs = "join tmp ''logs''"
  from sample_ok [of "min 60 (length vfs)" vfs w "create ?logs s"] obtain sampled s2 where
    sa: "sample w vfs (min 60 (length vfs)) (create ?logs s) = (Inr sampled, s2)" by auto
  from sample_draws [OF sa] have r2: "rng_pos s2 = rng_pos s + min 60 (length vfs)" by simp
  from sample_frame [OF sa] logs_inside [of tmp]
  have f2: "set (files s2) \<subseteq> set (files s) \<union> {p. inside tmp p}" by auto
  obtain r3 s3 where an: "analyze_videos w ?logs 0 sampled [] (print Analyzing s2) = (r3, s3)"
    by (cases "analyze_videos w ?logs 0 sampled [] (print Analyzing s2)")
  from analyze_videos_rng [OF an] r2 have r3: "rng_pos s3 = rng_pos s + min 60 (length vfs)" by simp
  from analyze_videos_frame [OF an logs_inside] f2
  have f3: "set (files s3) \<subseteq> set (files s) \<union> {p. inside tmp p}" by auto
  show ?thesis
  proof (cases r3)
    case (Inl e)
    with assms sa an r3 f3 show ?thesis by (auto simp: main_body_def Let_def)
  next
    case (Inr res)
    with assms sa an r3 f3 show ?thesis
      by (auto simp: main_body_def Let_def reencode_videos_empty)
  qed
qed

lemma with_temporary_directory_rng:
  "body (mkdtemp w) (create (mkdtemp w) s) = (r, s1) \<Longrightarrow>
   rng_pos (snd (with_temporary_directory w body s)) = rng_pos s1
   \<and> printed (snd (with_temporary_directory w body s)) = printed s1
   \<and> written (snd (with_temporary_directory w body s)) = written s1"
  by (simp add: with_temporary_directory_def Let_def)

lemma main_files_not_extended:
  "set (files (snd (main w vf cc fade out s))) \<subseteq> set (files s)"
proof (cases "preflight_ok w vf cc")
  case True
  let ?body = "main_body w (glob w (join vf ''*'')) cc fade out"
  obtain r s1 where b: "?body (mkdtemp w) (create (mkdtemp w) s) = (r, s1)"
    by (cases "?body (mkdtemp w) (create (mkdtemp w) s)")
  from main_body_stops [OF b] inside_self [of "mkdtemp w"]
  have "set (files s1) \<subseteq> set (files s) \<union> {p. inside (mkdtemp w) p}" by auto
  then show ?thesis unfolding main_preflight [OF True] using b
    by (auto simp: with_temporary_directory_def Let_def)
next
  case False
  then show ?thesis by (simp add: main_no_preflight)
qed

lemma main_invoked:
  "invoked (snd (main w vf cc fade out s)) = invoked s"
proof (cases "preflight_ok w vf cc")
  case True
  let ?body = "main_body w (glob w (join vf ''*'')) cc fade out"
  obtain r s1 where b: "?body (mkdtemp w) (create (mkdtemp w) s) = (r, s1)"
    by (cases "?body (mkdtemp w) (create (mkdtemp w) s)")
  from main_body_raises [OF b] have "invoked s1 = invoked s" by simp
  with with_temporary_directory_result [where body = "?body", OF b] show ?thesis
    unfolding main_preflight [OF True] by simp
next
  case False
  then show ?thesis by (simp add: main_no_preflight)
qed

lemma main_raises:
  assumes "preflight_ok w vf cc"
  shows "fst (main w vf cc fade out s) = Inl ValueError
       \<or> fst (main w vf cc fade out s) = Inl (KeyError ''input_i'')"
proof -
  let ?body = "main_body w (glob w (join vf ''*'')) cc fade out"
  obtain r s1 where b: "?body (mkdtemp w) (create (mkdtemp w) s) = (r, s1)"
    by (cases "?body (mkdtemp w) (create (mkdtemp w) s)")
  from main_body_raises [OF b] have "r = Inl ValueError \<or> r = Inl (KeyError ''input_i'')" by simp
  with with_temporary_directory_result [where body = "?body", OF b] show ?thesis
    unfolding main_preflight [OF assms] by simp
qed

lemma main_draws:
  assumes "preflight_ok w vf cc"
  shows "rng_pos (snd (main w vf cc fade out s))
           = rng_pos s + min 60 (length (glob w (join vf ''*'')))"
proof -
  let ?body = "main_body w (glob w (join vf ''*'')) cc fade out"
  obtain r s1 where b: "?body (mkdtemp w) (create (mkdtemp w) s) = (r, s1)"
    by (cases "?body (mkdtemp w) (create (mkdtemp w) s)")
  from main_body_stops [OF b] have "rng_pos s1 = rng_pos s + min 60 (length (glob w (join vf ''*'')))"
    by simp
  with with_temporary_directory_rng [where body = "?body", OF b] show ?thesis
    unfolding main_preflight [OF assms] by simp
qed

lemma main_message_without_preflight:
  assumes "\<not> preflight_ok w vf cc"
  shows "\<exists>m. printed (snd (main w vf cc fade out s)) = printed s @ [m]
            \<and> (m = MissingTools \<or> m = MissingInputs \<or> m = NoVideoFiles)"
  using assms by (auto simp: main_def preflight_ok_def Let_def)

lemma sample_world0:
  "fst (sample world0 (glob world0 (join ''v'' ''*'')) 4 (create ''/tmp/ph/logs'' (create ''/tmp/ph'' state0)))
    = Inr [''v/a.mp4'', ''v/c.mp4'', ''v/b.mp4'', ''v/d.mp4'']"
  by code_simp

lemma no_preflight_world_no_tools: "\<not> preflight_ok world_no_tools ''v'' ''common.mp4''"
  by (simp add: preflight_ok_def world_no_tools_def)



lemma analyze_step_messages:
  assumes "analyze_videos w logs i (v # rest) res s = (Inr res', s')"
  shows "\<exists>res1 s1. analyze_videos w logs (Suc i) rest res1 s1 = (Inr res', s')
          \<and> printed s1 = printed s @ drop_messages w logs i v"
  using assms
  apply (auto simp: get_video_duration_def analyze_loudness_def drop_messages_def
           split: probe_out.splits loud_out.splits sum.splits if_splits option.splits)
   apply (intro exI conjI, assumption, simp)+
  done

lemma analyze_videos_messages:
  assumes "analyze_videos w logs i vs res s = (Inr res', s')"
  shows "printed s' = printed s
           @ concat (map (\<lambda>(k, f). drop_messages w logs k f) (zip [i ..< i + length vs] vs))"
  using assms
proof (induction vs arbitrary: i res s)
  case Nil
  then show ?case by simp
next
  case (Cons v rest)
  from analyze_step_messages [OF Cons.prems] obtain res1 s1 where
    rec: "analyze_videos w logs (Suc i) rest res1 s1 = (Inr res', s')"
    and p1: "printed s1 = printed s @ drop_messages w logs i v" by blast
  have upt: "[i ..< i + length (v # rest)] = i # [Suc i ..< Suc i + length rest]"
    using upt_conv_Cons [of i "i + Suc (length rest)"] by simp
  from Cons.IH [OF rec] p1 show ?case unfolding upt by simp
qed

section \<open>Claims\<close>

text \<open>
  C1. When the per-clip loop has returned with \<open>n\<close> successful segments, the manifest
  written before the concatenation has \<open>2n - 1\<close> entries for \<open>n \<ge> 1\<close> and none for
  \<open>n = 0\<close>; entry \<open>2k\<close> is the \<open>k\<close>-th successful segment, and the common clip stands
  at exactly the odd positions: once between two consecutive segments, never first and
  never last. The successful segments are the outputs of the commands on which the
  engine succeeded, in the order of the jobs.
\<close>

theorem assembly_plan_interleaved:
  assumes "process_clips w temp_dir logs fade 1 results [] 0 s = (Inr (clip_list, failed), s1)"
  shows "let common = join temp_dir ''common_clip.mp4'';
             plan = concat_lines common 0 clip_list;
             n = length clip_list
         in written (snd (process_and_concatenate w temp_dir logs common fade results out s))
              = written s @ [(join temp_dir ''concat_list.txt'', plan)]
          \<and> (\<exists>cmds. invoked s1 = invoked s @ cmds \<and> length cmds = length results
                 \<and> clip_list = map c_output (filter (engine w) cmds))
          \<and> (n = 0 \<longrightarrow> plan = [])
          \<and> (1 \<le> n \<longrightarrow> length plan = 2 * n - 1)
          \<and> (\<forall>j < length plan. plan ! j = (if even j then file_line (clip_list ! (j div 2))
                                              else file_line common))
          \<and> (\<forall>j < length plan. plan ! j = file_line common \<longleftrightarrow> odd j)"
proof -
  let ?common = "join temp_dir ''common_clip.mp4''"
  let ?plan = "concat_lines ?common 0 clip_list"
  from process_clips_Inr [OF assms] obtain cmds where
    inv: "invoked s1 = invoked s @ cmds"
    and rel: "list_all2 (\<lambda>c (f, d, info). c_input c = f \<and> c_t c = 60 \<and> audio_filters info = Inr (c_af c)
                  \<and> (\<exists>r. d = Fin r \<and> 10 \<le> c_ss c \<and> c_ss c + 70 \<le> r)) cmds results"
    and outs: "map c_output cmds = map (\<lambda>k. join temp_dir (temp_clip_name k)) [1 ..< 1 + length results]"
    and clips: "clip_list = [] @ map c_output (filter (engine w) cmds)"
    and wr: "written s1 = written s"
    by blast
  have w: "written (snd (process_and_concatenate w temp_dir logs ?common fade results out s))
             = written s @ [(join temp_dir ''concat_list.txt'', ?plan)]"
    using assms wr by (simp add: process_and_concatenate_def written_concatenate)
  have len: "length cmds = length results" using rel by (rule list_all2_lengthD)
  have "set clip_list \<subseteq> set (map c_output cmds)" using clips by auto
  then have names: "\<forall>p \<in> set clip_list. \<exists>k. p = join temp_dir (temp_clip_name k)"
    unfolding outs by auto
  have ne: "\<forall>p \<in> set clip_list. p \<noteq> ?common"
  proof
    fix p assume "p \<in> set clip_list"
    with names obtain k where "p = join temp_dir (temp_clip_name k)" by blast
    then show "p \<noteq> ?common" by (simp add: temp_clip_not_common)
  qed
  have l: "1 \<le> length clip_list \<longrightarrow> length ?plan = 2 * length clip_list - 1"
    by (cases clip_list) (simp_all add: length_concat_lines_Suc)
  have nth: "\<forall>j < length ?plan. ?plan ! j = (if even j then file_line (clip_list ! (j div 2))
                                              else file_line ?common)"
    by (simp add: nth_concat_lines)
  have odd: "\<forall>j < length ?plan. ?plan ! j = file_line ?common \<longleftrightarrow> odd j"
  proof (intro allI impI)
    fix j assume j: "j < length ?plan"
    show "?plan ! j = file_line ?common \<longleftrightarrow> odd j"
    proof (cases "even j")
      case True
      from j have "clip_list \<noteq> []" by auto
      with l j have "j < 2 * length clip_list - 1"
        by (cases clip_list) auto
      with True have "j div 2 < length clip_list" by (auto elim!: evenE)
      then have "clip_list ! (j div 2) \<noteq> ?common" using ne by simp
      then show ?thesis using True j nth by (simp add: file_line_inj)
    next
      case False
      then show ?thesis using j nth by simp
    qed
  qed
  show ?thesis
    unfolding Let_def using w inv len clips l nth odd by auto
qed

theorem assembly_plan_interleaved_witness:
  "fst (process_clips world0 ''/tmp/ph'' ''/tmp/ph/logs'' 2 1 jobs0 [] 0 state0)
     = Inr ([''/tmp/ph/temp_clip_0001.mp4'', ''/tmp/ph/temp_clip_0003.mp4''], 1)
   \<and> written (snd (process_and_concatenate world0 ''/tmp/ph'' ''/tmp/ph/logs''
          ''/tmp/ph/common_clip.mp4'' 2 jobs0 ''out.mp4'' state0))
     = [(''/tmp/ph/concat_list.txt'',
         [file_line ''/tmp/ph/temp_clip_0001.mp4'', file_line ''/tmp/ph/common_clip.mp4'',
          file_line ''/tmp/ph/temp_clip_0003.mp4''])]"
proof -
  have h: "process_clips world0 ''/tmp/ph'' ''/tmp/ph/logs'' 2 1 jobs0 [] 0 state0
     = (Inr ([''/tmp/ph/temp_clip_0001.mp4'', ''/tmp/ph/temp_clip_0003.mp4''], 1),
        snd (process_clips world0 ''/tmp/ph'' ''/tmp/ph/logs'' 2 1 jobs0 [] 0 state0))"
    using process_clips_jobs0 by (simp add: prod_eq_iff)
  have j: "join ''/tmp/ph'' ''common_clip.mp4'' = ''/tmp/ph/common_clip.mp4''"
    "join ''/tmp/ph'' ''concat_list.txt'' = ''/tmp/ph/concat_list.txt''"
    by (simp_all add: join_def)
  from assembly_plan_interleaved [OF h, of "''out.mp4''"] process_clips_jobs0 show ?thesis
    by (simp add: Let_def j state0_def)
qed

text \<open>
  C2. For a measured duration \<open>d \<ge> 80\<close> the draw of line 107 returns a start offset
  \<open>st\<close> with \<open>10 \<le> st \<le> d - 70\<close>, hence \<open>st + 60 + 10 \<le> d\<close>; and every command the
  per-clip loop has run carries such an offset for the duration of its job. The witness
  takes the boundary durations 80 and 81.
\<close>

theorem start_offset_in_range:
  "(80 \<le> d \<longrightarrow>
      (\<exists>st. draw_start_time w (Fin d) s = (Inr st, s\<lparr>rng_pos := Suc (rng_pos s)\<rparr>)
           \<and> 10 \<le> st \<and> real_of_int st \<le> d - 70 \<and> real_of_int st + 60 + 10 \<le> d))
   \<and> (process_clips w temp_dir logs fade i results clips failed s = (Inr (clips', failed'), s')
        \<longrightarrow> (\<exists>cmds. invoked s' = invoked s @ cmds
              \<and> list_all2 (\<lambda>c (f, duration, info). c_input c = f \<and> c_t c = 60
                     \<and> (\<exists>r. duration = Fin r \<and> 10 \<le> c_ss c \<and> c_ss c \<le> r - 70
                            \<and> c_ss c + c_t c + 10 \<le> r)) cmds results))"
proof (intro conjI impI)
  assume d: "80 \<le> d"
  from draw_start_time_ok [OF d] obtain st where
    eq: "draw_start_time w (Fin d) s = (Inr st, s\<lparr>rng_pos := Suc (rng_pos s)\<rparr>)" by blast
  from draw_start_time_Inr [OF eq] have "10 \<le> st" "real_of_int st + 70 \<le> d" by auto
  with eq show "\<exists>st. draw_start_time w (Fin d) s = (Inr st, s\<lparr>rng_pos := Suc (rng_pos s)\<rparr>)
           \<and> 10 \<le> st \<and> real_of_int st \<le> d - 70 \<and> real_of_int st + 60 + 10 \<le> d"
    by (intro exI [of _ st]) simp
next
  assume "process_clips w temp_dir logs fade i results clips failed s = (Inr (clips', failed'), s')"
  from process_clips_Inr [OF this] obtain cmds where
    inv: "invoked s' = invoked s @ cmds"
    and rel: "list_all2 (\<lambda>c (f, d, info). c_input c = f \<and> c_t c = 60 \<and> audio_filters info = Inr (c_af c)
                  \<and> (\<exists>r. d = Fin r \<and> 10 \<le> c_ss c \<and> c_ss c + 70 \<le> r)) cmds results"
    by blast
  from rel have "list_all2 (\<lambda>c (f, duration, info). c_input c = f \<and> c_t c = 60
                     \<and> (\<exists>r. duration = Fin r \<and> 10 \<le> c_ss c \<and> c_ss c \<le> r - 70
                            \<and> c_ss c + c_t c + 10 \<le> r)) cmds results"
    by (rule list_all2_mono) auto
  with inv show "\<exists>cmds. invoked s' = invoked s @ cmds
              \<and> list_all2 (\<lambda>c (f, duration, info). c_input c = f \<and> c_t c = 60
                     \<and> (\<exists>r. duration = Fin r \<and> 10 \<le> c_ss c \<and> c_ss c \<le> r - 70
                            \<and> c_ss c + c_t c + 10 \<le> r)) cmds results"
    by blast
qed

theorem start_offset_in_range_witness:
  "(80::real) \<le> 80
   \<and> draw_start_time world0 (Fin 80) state0 = (Inr 10, state0\<lparr>rng_pos := Suc (rng_pos state0)\<rparr>)
   \<and> (80::real) \<le> 81
   \<and> (\<exists>st. fst (draw_start_time world0 (Fin 81) (state0\<lparr>rng_pos := 5\<rparr>)) = Inr st
          \<and> 10 \<le> st \<and> real_of_int st \<le> 81 - 70)
   \<and> fst (process_clips world0 ''/tmp/ph'' ''/tmp/ph/logs'' 2 1 jobs0 [] 0 state0)
        = Inr ([''/tmp/ph/temp_clip_0001.mp4'', ''/tmp/ph/temp_clip_0003.mp4''], 1)
   \<and> (\<exists>cmds. invoked (snd (process_clips world0 ''/tmp/ph'' ''/tmp/ph/logs'' 2 1 jobs0 [] 0 state0)) = cmds
         \<and> map c_ss cmds = [10, 11, 10] \<and> length cmds = length jobs0)"
proof -
  have h: "process_clips world0 ''/tmp/ph'' ''/tmp/ph/logs'' 2 1 jobs0 [] 0 state0
     = (Inr ([''/tmp/ph/temp_clip_0001.mp4'', ''/tmp/ph/temp_clip_0003.mp4''], 1),
        snd (process_clips world0 ''/tmp/ph'' ''/tmp/ph/logs'' 2 1 jobs0 [] 0 state0))"
    using process_clips_jobs0 by (simp add: prod_eq_iff)
  note T = start_offset_in_range [of 80 world0 state0 "''/tmp/ph''" "''/tmp/ph/logs''" 2 1 jobs0 "[]" 0
      "[''/tmp/ph/temp_clip_0001.mp4'', ''/tmp/ph/temp_clip_0003.mp4'']" 1
      "snd (process_clips world0 ''/tmp/ph'' ''/tmp/ph/logs'' 2 1 jobs0 [] 0 state0)"]
  note U = start_offset_in_range [of 81 world0 "state0\<lparr>rng_pos := 5\<rparr>" "''/tmp/ph''" "''/tmp/ph/logs''" 2 1 "[]" "[]" 0
      "[]" 0 "state0\<lparr>rng_pos := 5\<rparr>"]
  from T [THEN conjunct1] obtain st where
    "draw_start_time world0 (Fin 80) state0 = (Inr st, state0\<lparr>rng_pos := Suc (rng_pos state0)\<rparr>)"
    "10 \<le> st" "real_of_int st \<le> 80 - 70"
    by auto
  then have a: "draw_start_time world0 (Fin 80) state0 = (Inr 10, state0\<lparr>rng_pos := Suc (rng_pos state0)\<rparr>)"
    by simp
  have b: "\<exists>st. fst (draw_start_time world0 (Fin 81) (state0\<lparr>rng_pos := 5\<rparr>)) = Inr st
          \<and> 10 \<le> st \<and> real_of_int st \<le> 81 - 70"
    using U [THEN conjunct1] by auto
  have c: "map c_ss (invoked (snd (process_clips world0 ''/tmp/ph'' ''/tmp/ph/logs'' 2 1 jobs0 [] 0 state0)))
     = [10, 11, 10]"
    by (simp add: jobs0_def world0_def state0_def draw_start_time_def randint_def reencode_videos_def
       audio_filters_stats0 run_command_def Let_def join_def create_def print_def temp_clip_names video_log_names)
  from T [THEN conjunct2] h have d: "length (invoked (snd (process_clips world0 ''/tmp/ph'' ''/tmp/ph/logs'' 2 1 jobs0 [] 0 state0)))
     = length jobs0"
    by (auto simp: state0_def dest: list_all2_lengthD)
  show ?thesis using a b c d process_clips_jobs0 by simp
qed

text \<open>
  C7 (the code fails the claim). The common-clip step passes the empty dict, so the
  first subscript of the audio filter raises KeyError and no command is run, whatever
  the other arguments are. The per-clip step fails in the same way on a mapping that
  lacks a key: the parser checks nothing, and on a line in ffmpeg's json format it
  stores the key with its double quotes, which is not the key the filter asks for.
\<close>

theorem audio_filter_key_lookup_fails:
  "reencode_videos w common_clip 0 fade_duration common_clip_temp log_file_path fade_duration [] s
     = (Inl (KeyError ''input_i''), s)
   \<and> parse_loudness (split_lines json_line0) []
     = Inr [([CHR 0x22] @ ''input_i'' @ [CHR 0x22], [CHR 0x22] @ ''-27.61'' @ [CHR 0x22] @ '','')]
   \<and> reencode_videos w video_file start_time 60 temp_clip_path log_file_path fade_duration
        [([CHR 0x22] @ ''input_i'' @ [CHR 0x22], [CHR 0x22] @ ''-27.61'' @ [CHR 0x22] @ '','')] s
     = (Inl (KeyError ''input_i''), s)"
  by (simp add: reencode_videos_empty parse_json_line0)
     (simp add: reencode_videos_def audio_filters_def dict_get_def and_then_def)

text \<open>
  C10 (the code fails the claim). When ffprobe exits with 0 and prints a text that
  \<^verbatim>\<open>float\<close> rejects, \<^verbatim>\<open>get_video_duration\<close> raises ValueError: only
  CalledProcessError is caught. (\<^verbatim>\<open>analyze_loudness\<close> never raises, by
  \<open>analyze_loudness_never_raises\<close>.)
\<close>

theorem duration_probe_raises:
  "get_video_duration (w\<lparr>ffprobe := \<lambda>_. ProbeText ''N/A''\<rparr>) video_file s = (Inl ValueError, s)"
  by (simp add: get_video_duration_def)

text \<open>
  C5 (the code fails the claim). Every run that passes the checks of lines 68 to 79
  ends in an exception before any engine command is run: ValueError from the
  measuring loop, or else KeyError for \<open>input_i\<close> from the common-clip step, whose
  statistics are the empty dict. So the common clip is never re-encoded; no per-clip
  job is attempted and no output is produced, but not because the engine failed.
\<close>

theorem common_clip_never_encoded:
  assumes "preflight_ok w video_folder common_clip"
  shows "(fst (main w video_folder common_clip fade_duration output_file s) = Inl ValueError
          \<or> fst (main w video_folder common_clip fade_duration output_file s)
               = Inl (KeyError ''input_i''))
       \<and> invoked (snd (main w video_folder common_clip fade_duration output_file s)) = invoked s"
proof -
  let ?body = "main_body w (glob w (join video_folder ''*'')) common_clip fade_duration output_file"
  obtain r s1 where b: "?body (mkdtemp w) (create (mkdtemp w) s) = (r, s1)"
    by (cases "?body (mkdtemp w) (create (mkdtemp w) s)")
  from main_body_raises [OF b] have "r = Inl ValueError \<or> r = Inl (KeyError ''input_i'')"
    and "invoked s1 = invoked s" by simp_all
  with with_temporary_directory_result [where body = "?body", OF b] show ?thesis
    unfolding main_preflight [OF assms] by simp
qed

theorem common_clip_never_encoded_witness:
  "preflight_ok world0 ''v'' ''common.mp4''
   \<and> fst (main world0 ''v'' ''common.mp4'' 2 ''out.mp4'' state0) = Inl (KeyError ''input_i'')
   \<and> invoked (snd (main world0 ''v'' ''common.mp4'' 2 ''out.mp4'' state0)) = invoked state0"
  using common_clip_never_encoded [OF preflight_world0, of 2 "''out.mp4''" state0]
  by (simp add: preflight_world0 main_world0)

text \<open>
  C8. After a run that passed the checks, no path inside the temporary directory is
  left, whether the body returned or raised; and whatever the run, the files afterwards
  are those before, and possibly the output file. The same holds when the part of the
  body after the common-clip step (lines 105 to 129) runs under the same
  \<^verbatim>\<open>with\<close> block, for every list of jobs, with or without failures.
\<close>

theorem workspace_removed:
  "(preflight_ok w video_folder common_clip \<longrightarrow>
      (\<forall>p \<in> set (files (snd (main w video_folder common_clip fade_duration output_file s))).
          \<not> inside (mkdtemp w) p))
   \<and> set (files (snd (main w video_folder common_clip fade_duration output_file s)))
        \<subseteq> set (files s) \<union> {output_file}
   \<and> (\<forall>p \<in> set (files (snd (with_temporary_directory w
            (\<lambda>temp_dir. process_and_concatenate w temp_dir (join temp_dir ''logs'')
               (join temp_dir ''common_clip.mp4'') fade_duration loudness_results output_file) s))).
          \<not> inside (mkdtemp w) p)
   \<and> set (files (snd (with_temporary_directory w
            (\<lambda>temp_dir. process_and_concatenate w temp_dir (join temp_dir ''logs'')
               (join temp_dir ''common_clip.mp4'') fade_duration loudness_results output_file) s)))
        \<subseteq> set (files s) \<union> {output_file}"
proof (intro conjI impI)
  assume pre: "preflight_ok w video_folder common_clip"
  show "\<forall>p \<in> set (files (snd (main w video_folder common_clip fade_duration output_file s))).
          \<not> inside (mkdtemp w) p"
    unfolding main_preflight [OF pre] by (rule with_temporary_directory_clean)
next
  show "set (files (snd (main w video_folder common_clip fade_duration output_file s)))
        \<subseteq> set (files s) \<union> {output_file}"
  proof (cases "preflight_ok w video_folder common_clip")
    case True
    show ?thesis unfolding main_preflight [OF True]
      by (rule with_temporary_directory_frame) (rule main_body_frame)
  next
    case False
    then show ?thesis by (auto simp: main_no_preflight)
  qed
next
  show "\<forall>p \<in> set (files (snd (with_temporary_directory w
            (\<lambda>temp_dir. process_and_concatenate w temp_dir (join temp_dir ''logs'')
               (join temp_dir ''common_clip.mp4'') fade_duration loudness_results output_file) s))).
          \<not> inside (mkdtemp w) p"
    by (rule with_temporary_directory_clean)
next
  show "set (files (snd (with_temporary_directory w
            (\<lambda>temp_dir. process_and_concatenate w temp_dir (join temp_dir ''logs'')
               (join temp_dir ''common_clip.mp4'') fade_duration loudness_results output_file) s)))
        \<subseteq> set (files s) \<union> {output_file}"
    by (rule with_temporary_directory_frame)
       (rule process_and_concatenate_frame [OF _ logs_inside])
qed

theorem workspace_removed_witness:
  "preflight_ok world0 ''v'' ''common.mp4''
   \<and> files (snd (main world0 ''v'' ''common.mp4'' 2 ''out.mp4'' state0)) = []
   \<and> set (files (snd (main world0 ''v'' ''common.mp4'' 2 ''out.mp4'' state0)))
        \<subseteq> set (files state0) \<union> {''out.mp4''}
   \<and> files (snd (with_temporary_directory world0
            (\<lambda>temp_dir. process_and_concatenate world0 temp_dir (join temp_dir ''logs'')
               (join temp_dir ''common_clip.mp4'') 2 jobs0 ''out.mp4'') state0)) = [''out.mp4'']
   \<and> \<not> inside (mkdtemp world0) ''out.mp4''"
proof -
  note T = workspace_removed [of world0 "''v''" "''common.mp4''" 2 "''out.mp4''" state0 jobs0]
  from T have a: "set (files (snd (main world0 ''v'' ''common.mp4'' 2 ''out.mp4'' state0)))
        \<subseteq> set (files state0) \<union> {''out.mp4''}" by blast
  from T tail_world0_files have b: "\<not> inside (mkdtemp world0) ''out.mp4''" by simp
  show ?thesis using a b preflight_world0 main_world0 tail_world0_files by simp
qed

text \<open>
  C3 (the code fails the claim). The claim: a sampled file reaches the planning of its
  clip and the encode if and only if its duration probe succeeded, the duration is at
  least 80 and its loudness pass succeeded. In every run that passes the checks no
  engine command is run and the random source is asked for the sampling only: no
  start offset is drawn and no clip is encoded for any file, also not for one that
  meets the three conditions (the second file of the witness), because the run ends
  at the common-clip step. That no file shorter than 80 seconds is kept for the
  planning is \<open>loudness_results_keys\<close>.
\<close>

theorem retained_candidate_never_planned:
  assumes "preflight_ok w video_folder common_clip"
  shows "invoked (snd (main w video_folder common_clip fade_duration output_file s)) = invoked s
       \<and> rng_pos (snd (main w video_folder common_clip fade_duration output_file s))
           = rng_pos s + min 60 (length (glob w (join video_folder ''*'')))"
  using main_invoked [of w video_folder common_clip fade_duration output_file s]
    main_draws [OF assms, of fade_duration output_file s]
  by simp

theorem retained_candidate_never_planned_witness:
  "preflight_ok world0 ''v'' ''common.mp4''
   \<and> fst (sample world0 (glob world0 (join ''v'' ''*'')) 4
             (create ''/tmp/ph/logs'' (create ''/tmp/ph'' state0)))
       = Inr [''v/a.mp4'', ''v/c.mp4'', ''v/b.mp4'', ''v/d.mp4'']
   \<and> ffprobe world0 ''v/b.mp4'' = ProbeFloat (Fin 90) \<and> float_ge (Fin 90) 80
   \<and> loudnorm world0 ''v/b.mp4'' = LoudText loudness_text0
   \<and> parse_loudness (split_lines loudness_text0) [] = Inr stats0
   \<and> invoked (snd (main world0 ''v'' ''common.mp4'' 2 ''out.mp4'' state0)) = []
   \<and> rng_pos (snd (main world0 ''v'' ''common.mp4'' 2 ''out.mp4'' state0)) = 4"
proof -
  have g: "length (glob world0 (join ''v'' ''*'')) = 4" by (simp add: world0_def)
  have p: "ffprobe world0 ''v/b.mp4'' = ProbeFloat (Fin 90)" "loudnorm world0 ''v/b.mp4'' = LoudText loudness_text0"
    by (simp_all add: world0_def)
  from retained_candidate_never_planned [OF preflight_world0, of 2 "''out.mp4''" state0] g
  have "invoked (snd (main world0 ''v'' ''common.mp4'' 2 ''out.mp4'' state0)) = []"
    "rng_pos (snd (main world0 ''v'' ''common.mp4'' 2 ''out.mp4'' state0)) = 4"
    by (simp_all add: state0_def)
  with preflight_world0 sample_world0 p parse_world0 show ?thesis by simp
qed

text \<open>
  C4. In every run of main no engine command is run, so no segment is produced and no
  concat command is run; no file is there afterwards that was not there before, so no
  output file is produced; and the run reports a failure: it ends in an exception when
  the checks of lines 68 to 79 passed, and prints one of their three messages
  otherwise. (Lines 120 to 129 themselves do not look at the number of segments, see
  \<open>concatenate_without_segments\<close>; no run reaches them.)
\<close>

theorem no_concatenation_without_segments:
  "invoked (snd (main w video_folder common_clip fade_duration output_file s)) = invoked s
   \<and> set (files (snd (main w video_folder common_clip fade_duration output_file s))) \<subseteq> set (files s)
   \<and> (preflight_ok w video_folder common_clip \<longrightarrow>
         fst (main w video_folder common_clip fade_duration output_file s) = Inl ValueError
       \<or> fst (main w video_folder common_clip fade_duration output_file s) = Inl (KeyError ''input_i''))
   \<and> (\<not> preflight_ok w video_folder common_clip \<longrightarrow>
         (\<exists>m. printed (snd (main w video_folder common_clip fade_duration output_file s))
                 = printed s @ [m]
             \<and> (m = MissingTools \<or> m = MissingInputs \<or> m = NoVideoFiles)))"
proof (intro conjI impI)
  show "invoked (snd (main w video_folder common_clip fade_duration output_file s)) = invoked s"
    by (rule main_invoked)
  show "set (files (snd (main w video_folder common_clip fade_duration output_file s))) \<subseteq> set (files s)"
    by (rule main_files_not_extended)
next
  assume "preflight_ok w video_folder common_clip"
  then show "fst (main w video_folder common_clip fade_duration output_file s) = Inl ValueError
       \<or> fst (main w video_folder common_clip fade_duration output_file s) = Inl (KeyError ''input_i'')"
    by (rule main_raises)
next
  assume "\<not> preflight_ok w video_folder common_clip"
  then show "\<exists>m. printed (snd (main w video_folder common_clip fade_duration output_file s))
                 = printed s @ [m]
             \<and> (m = MissingTools \<or> m = MissingInputs \<or> m = NoVideoFiles)"
    by (rule main_message_without_preflight)
qed

theorem no_concatenation_without_segments_witness:
  "preflight_ok world0 ''v'' ''common.mp4''
   \<and> fst (main world0 ''v'' ''common.mp4'' 2 ''out.mp4'' state0) = Inl (KeyError ''input_i'')
   \<and> invoked (snd (main world0 ''v'' ''common.mp4'' 2 ''out.mp4'' state0)) = []
   \<and> files (snd (main world0 ''v'' ''common.mp4'' 2 ''out.mp4'' state0)) = []
   \<and> \<not> preflight_ok world_no_tools ''v'' ''common.mp4''
   \<and> printed (snd (main world_no_tools ''v'' ''common.mp4'' 2 ''out.mp4'' state0)) = [MissingTools]
   \<and> invoked (snd (main world_no_tools ''v'' ''common.mp4'' 2 ''out.mp4'' state0)) = []"
proof -
  note T = no_concatenation_without_segments [of world0 "''v''" "''common.mp4''" 2 "''out.mp4''" state0]
  note U = no_concatenation_without_segments [of world_no_tools "''v''" "''common.mp4''" 2 "''out.mp4''" state0]
  from T have a: "invoked (snd (main world0 ''v'' ''common.mp4'' 2 ''out.mp4'' state0)) = []"
    and b: "files (snd (main world0 ''v'' ''common.mp4'' 2 ''out.mp4'' state0)) = []"
    by (simp_all add: state0_def)
  from U have c: "invoked (snd (main world_no_tools ''v'' ''common.mp4'' 2 ''out.mp4'' state0)) = []"
    by (simp add: state0_def)
  have d: "printed (snd (main world_no_tools ''v'' ''common.mp4'' 2 ''out.mp4'' state0)) = [MissingTools]"
    by code_simp
  show ?thesis using a b c d preflight_world0 no_preflight_world_no_tools main_world0 by simp
qed



text \<open>
  C9 (amended). The claim says that the candidates dropped before encoding are counted
  and reflected in the final report. In the counterexample the first file is sampled,
  lasts 50 seconds and is dropped; all that the run prints are the two lines around
  the measuring loop, and no number. What holds: dropped candidates are not counted.
  The measuring loop prints one error line naming the file for a duration probe that
  failed and for a loudness analysis that failed, and nothing for a file below the
  threshold; it runs no engine command and keeps no count.
\<close>

theorem dropped_candidate_not_counted_counterexample:
  "fst (sample world0 (glob world0 (join ''v'' ''*'')) 4
          (create ''/tmp/ph/logs'' (create ''/tmp/ph'' state0)))
     = Inr [''v/a.mp4'', ''v/c.mp4'', ''v/b.mp4'', ''v/d.mp4'']
   \<and> ffprobe world0 ''v/a.mp4'' = ProbeFloat (Fin 50)
   \<and> \<not> float_ge (Fin 50) 80
   \<and> main world0 ''v'' ''common.mp4'' 2 ''out.mp4'' state0
     = (Inl (KeyError ''input_i''),
        \<lparr>files = [], invoked = [], printed = [Analyzing, FinishedAnalyzing], written = [],
           rng_pos = 4\<rparr>)"
  by code_simp

theorem dropped_candidates_print_error_lines:
  assumes "analyze_videos w logs i video_files res s = (Inr res', s')"
  shows "printed s' = printed s
           @ concat (map (\<lambda>(k, f). drop_messages w logs k f)
                      (zip [i ..< i + length video_files] video_files))
       \<and> invoked s' = invoked s \<and> rng_pos s' = rng_pos s
       \<and> (\<forall>f k. ffprobe w f = ProbeExit \<longrightarrow> drop_messages w logs k f = [ErrorDuration f])
       \<and> (\<forall>f k d. ffprobe w f = ProbeFloat d \<and> \<not> float_ge d 80 \<longrightarrow> drop_messages w logs k f = [])
       \<and> (\<forall>f k d out. ffprobe w f = ProbeFloat d \<and> float_ge d 80 \<and> loudnorm w f = LoudExit out
             \<longrightarrow> drop_messages w logs k f = [ErrorLoudness f (join logs (loudness_log_name k))])
       \<and> (\<forall>f k d t. ffprobe w f = ProbeFloat d \<and> loudnorm w f = LoudText t
             \<longrightarrow> drop_messages w logs k f = [])"
proof -
  have "invoked s' = invoked s"
    using analyze_videos_frame [OF assms, of logs] by (simp add: inside_self)
  moreover have "rng_pos s' = rng_pos s" using assms by (rule analyze_videos_rng)
  moreover note analyze_videos_messages [OF assms]
  ultimately show ?thesis
    by (auto simp: drop_messages_def float_ge_truthy)
qed

theorem dropped_candidates_print_error_lines_witness:
  "analyze_videos world3 ''/tmp/ph/logs'' 0 [''v/a.mp4'', ''v/b.mp4'', ''v/c.mp4'', ''v/d.mp4''] [] state0
     = (Inr [(''v/d.mp4'', Fin 80, stats0)],
        \<lparr>files = [''/tmp/ph/logs/loudness_0002.log''], invoked = [],
           printed = [ErrorDuration ''v/b.mp4'',
                      ErrorLoudness ''v/c.mp4'' ''/tmp/ph/logs/loudness_0002.log''],
           written = [(''/tmp/ph/logs/loudness_0002.log'', [''no audio''])], rng_pos = 0\<rparr>)
   \<and> drop_messages world3 ''/tmp/ph/logs'' 0 ''v/a.mp4'' = []
   \<and> concat (map (\<lambda>(k, f). drop_messages world3 ''/tmp/ph/logs'' k f)
             (zip [0 ..< 0 + length [''v/a.mp4'', ''v/b.mp4'', ''v/c.mp4'', ''v/d.mp4'']]
                  [''v/a.mp4'', ''v/b.mp4'', ''v/c.mp4'', ''v/d.mp4'']))
       = [ErrorDuration ''v/b.mp4'', ErrorLoudness ''v/c.mp4'' ''/tmp/ph/logs/loudness_0002.log'']"
proof -
  have h: "analyze_videos world3 ''/tmp/ph/logs'' 0 [''v/a.mp4'', ''v/b.mp4'', ''v/c.mp4'', ''v/d.mp4''] [] state0
     = (Inr [(''v/d.mp4'', Fin 80, stats0)],
        \<lparr>files = [''/tmp/ph/logs/loudness_0002.log''], invoked = [],
           printed = [ErrorDuration ''v/b.mp4'',
                      ErrorLoudness ''v/c.mp4'' ''/tmp/ph/logs/loudness_0002.log''],
           written = [(''/tmp/ph/logs/loudness_0002.log'', [''no audio''])], rng_pos = 0\<rparr>)"
    by code_simp
  have a: "drop_messages world3 ''/tmp/ph/logs'' 0 ''v/a.mp4'' = []" by code_simp
  from dropped_candidates_print_error_lines [OF h]
  have "concat (map (\<lambda>(k, f). drop_messages world3 ''/tmp/ph/logs'' k f)
             (zip [0 ..< 0 + length [''v/a.mp4'', ''v/b.mp4'', ''v/c.mp4'', ''v/d.mp4'']]
                  [''v/a.mp4'', ''v/b.mp4'', ''v/c.mp4'', ''v/d.mp4'']))
       = [ErrorDuration ''v/b.mp4'', ErrorLoudness ''v/c.mp4'' ''/tmp/ph/logs/loudness_0002.log'']"
    by (simp add: state0_def)
  with h a show ?thesis by simp
qed

end
